theory Spec2Isabelle
  imports Complex_Main
begin

section \<open>JavaScript numbers and exceptions\<close>

text \<open>
  The library computes on JavaScript numbers. A number is modelled as a finite real, one of
  the two infinities, or NaN. Arithmetic on finite values is exact here (no rounding to
  binary64 and no overflow) and there is one zero, the positive one; the special values
  follow IEEE 754 as JavaScript does: NaN is absorbing, every comparison with NaN is false,
  a non-zero finite value divided by zero is an infinity, and \<open>0/0\<close>, \<open>Infinity - Infinity\<close>,
  \<open>Infinity/Infinity\<close> and \<open>0 * Infinity\<close> are NaN.
\<close>

datatype jsnum = Fin real | PInf | NInf | NaN

fun jneg :: "jsnum \<Rightarrow> jsnum" where
  "jneg (Fin a) = Fin (- a)"
| "jneg PInf = NInf"
| "jneg NInf = PInf"
| "jneg NaN = NaN"

fun jadd :: "jsnum \<Rightarrow> jsnum \<Rightarrow> jsnum" where
  "jadd NaN _ = NaN"
| "jadd _ NaN = NaN"
| "jadd (Fin a) (Fin b) = Fin (a + b)"
| "jadd PInf NInf = NaN"
| "jadd NInf PInf = NaN"
| "jadd PInf _ = PInf"
| "jadd _ PInf = PInf"
| "jadd NInf _ = NInf"
| "jadd _ NInf = NInf"

definition jsub :: "jsnum \<Rightarrow> jsnum \<Rightarrow> jsnum" where
  "jsub a b = jadd a (jneg b)"

fun jmul :: "jsnum \<Rightarrow> jsnum \<Rightarrow> jsnum" where
  "jmul NaN _ = NaN"
| "jmul _ NaN = NaN"
| "jmul (Fin a) (Fin b) = Fin (a * b)"
| "jmul (Fin a) PInf = (if a = 0 then NaN else if 0 < a then PInf else NInf)"
| "jmul (Fin a) NInf = (if a = 0 then NaN else if 0 < a then NInf else PInf)"
| "jmul PInf (Fin b) = (if b = 0 then NaN else if 0 < b then PInf else NInf)"
| "jmul NInf (Fin b) = (if b = 0 then NaN else if 0 < b then NInf else PInf)"
| "jmul PInf PInf = PInf"
| "jmul PInf NInf = NInf"
| "jmul NInf PInf = NInf"
| "jmul NInf NInf = PInf"

fun jdiv :: "jsnum \<Rightarrow> jsnum \<Rightarrow> jsnum" where
  "jdiv NaN _ = NaN"
| "jdiv _ NaN = NaN"
| "jdiv (Fin a) (Fin b) =
     (if b = 0 then (if a = 0 then NaN else if 0 < a then PInf else NInf) else Fin (a / b))"
| "jdiv (Fin a) PInf = Fin 0"
| "jdiv (Fin a) NInf = Fin 0"
| "jdiv PInf (Fin b) = (if 0 \<le> b then PInf else NInf)"
| "jdiv NInf (Fin b) = (if 0 \<le> b then NInf else PInf)"
| "jdiv PInf PInf = NaN"
| "jdiv PInf NInf = NaN"
| "jdiv NInf PInf = NaN"
| "jdiv NInf NInf = NaN"

text \<open>\<^verbatim>\<open>Math.abs\<close>, the comparison \<^verbatim>\<open><\<close>, \<^verbatim>\<open>Math.log\<close> and \<^verbatim>\<open>isFinite\<close>.\<close>

fun Math_abs :: "jsnum \<Rightarrow> jsnum" where
  "Math_abs (Fin a) = Fin \<bar>a\<bar>"
| "Math_abs PInf = PInf"
| "Math_abs NInf = PInf"
| "Math_abs NaN = NaN"

fun jlt :: "jsnum \<Rightarrow> jsnum \<Rightarrow> bool" where
  "jlt NaN _ = False"
| "jlt _ NaN = False"
| "jlt (Fin a) (Fin b) = (a < b)"
| "jlt (Fin a) PInf = True"
| "jlt NInf (Fin b) = True"
| "jlt NInf PInf = True"
| "jlt _ _ = False"

fun Math_log :: "jsnum \<Rightarrow> jsnum" where
  "Math_log (Fin a) = (if 0 < a then Fin (ln a) else if a = 0 then NInf else NaN)"
| "Math_log PInf = PInf"
| "Math_log NInf = NaN"
| "Math_log NaN = NaN"

fun isFinite :: "jsnum \<Rightarrow> bool" where
  "isFinite (Fin a) = True"
| "isFinite _ = False"

text \<open>
  What a \<^verbatim>\<open>throw\<close> carries: a \<^verbatim>\<open>SyntaxError\<close>, a \<^verbatim>\<open>RangeError\<close>, any other \<^verbatim>\<open>Error\<close>
  (each with its message), or a value that is not an \<^verbatim>\<open>Error\<close> at all. A function that
  may throw returns \<open>js_exn + 'a\<close>, with \<open>Inl\<close> for the exception.
\<close>

datatype js_exn = SyntaxError string | RangeError string | Error string | NonError

fun instanceof_Error :: "js_exn \<Rightarrow> bool" where
  "instanceof_Error NonError = False"
| "instanceof_Error _ = True"

fun instanceof_SyntaxError :: "js_exn \<Rightarrow> bool" where
  "instanceof_SyntaxError (SyntaxError m) = True"
| "instanceof_SyntaxError _ = False"

fun message :: "js_exn \<Rightarrow> string" where
  "message (SyntaxError m) = m"
| "message (RangeError m) = m"
| "message (Error m) = m"
| "message NonError = []"

text \<open>\<^verbatim>\<open>s.includes(pat)\<close>: \<open>pat\<close> occurs in \<open>s\<close> as a contiguous run.\<close>

fun str_includes :: "string \<Rightarrow> string \<Rightarrow> bool" where
  "str_includes [] pat = (pat = [])"
| "str_includes (c # cs) pat = (take (length pat) (c # cs) = pat \<or> str_includes cs pat)"

text \<open>Sequencing of computations that may throw: the first exception ends the computation.\<close>

definition bind_exn :: "js_exn + 'a \<Rightarrow> ('a \<Rightarrow> js_exn + 'b) \<Rightarrow> js_exn + 'b" where
  "bind_exn m k = (case m of Inl e \<Rightarrow> Inl e | Inr a \<Rightarrow> k a)"

text \<open>
  The idiom \<^verbatim>\<open>parseFloat(v.toFixed(precision))\<close>. \<^verbatim>\<open>toFixed\<close> throws a \<^verbatim>\<open>RangeError\<close> unless
  \<open>0 \<le> precision \<le> 100\<close>; it prints NaN and the infinities by name, a value of magnitude
  \<open>10^21\<close> or more in exponential notation with all its digits, and any other value rounded
  to \<open>precision\<close> decimals, a tie going away from zero. \<^verbatim>\<open>parseFloat\<close> reads the text back.
\<close>

definition round_half_away :: "nat \<Rightarrow> real \<Rightarrow> real" where
  "round_half_away p a = sgn a * of_int \<lfloor>\<bar>a\<bar> * 10 ^ p + 1 / 2\<rfloor> / 10 ^ p"

definition parseFloat_toFixed :: "jsnum \<Rightarrow> int \<Rightarrow> js_exn + jsnum" where
  "parseFloat_toFixed v precision =
     (if precision < 0 \<or> 100 < precision
      then Inl (RangeError ''toFixed() digits argument must be between 0 and 100'')
      else Inr (case v of
                  Fin a \<Rightarrow> if 10 ^ 21 \<le> \<bar>a\<bar> then Fin a else Fin (round_half_away (nat precision) a)
                | PInf \<Rightarrow> PInf
                | NInf \<Rightarrow> NInf
                | NaN \<Rightarrow> NaN))"

section \<open>The result records\<close>

record IterationResult =
  iteration :: int
  approximation :: jsnum
  relativeError :: "jsnum option"

record DerivativeResult =
  forward :: jsnum
  backward :: jsnum
  centered :: jsnum
  forwardError :: "jsnum option"
  backwardError :: "jsnum option"
  centeredError :: "jsnum option"
  symbolic :: "jsnum option"

section \<open>The root finders of \<^verbatim>\<open>src/lib/math-utils.ts\<close>\<close>

text \<open>
  These three take no expression: the target function is written into them and the
  parameter \<open>targetValue\<close> is accepted and not used. The \<^verbatim>\<open>for\<close> loop is a recursive
  function of the loop variable \<open>i\<close> and of the variables the loop body assigns; \<open>results\<close>
  is the array, a \<^verbatim>\<open>push\<close> appends at its end.

  Each function declares its closures anew; \<open>f\<close> is the same in all three. \<open>relErr\<close> names
  the expression \<^verbatim>\<open>Math.abs((nextX - x) / nextX) * 100\<close> that all the loops contain. Left
  out, since nothing depends on them: the constant \<^verbatim>\<open>func\<close>, the closure \<^verbatim>\<open>g\<close> of
  \<^verbatim>\<open>fixedPointIteration\<close>, the \<^verbatim>\<open>if\<close> statements whose only content is a commented-out
  \<^verbatim>\<open>break\<close>, and the calls of \<^verbatim>\<open>console.error\<close>.
\<close>

definition G :: "jsnum \<Rightarrow> jsnum" where
  "G val = jadd (jsub val (Math_log val)) (Fin 1)"

definition f :: "jsnum \<Rightarrow> jsnum" where
  "f val = jsub (Math_log val) (Fin 1)"

definition fPrime :: "jsnum \<Rightarrow> jsnum" where
  "fPrime val = jdiv (Fin 1) val"

definition relErr :: "jsnum \<Rightarrow> jsnum \<Rightarrow> jsnum" where
  "relErr nextX x = jmul (Math_abs (jdiv (jsub nextX x) nextX)) (Fin 100)"

function fixedPointIteration_loop ::
  "int \<Rightarrow> int \<Rightarrow> int \<Rightarrow> jsnum \<Rightarrow> jsnum option \<Rightarrow> IterationResult list
     \<Rightarrow> js_exn + IterationResult list" where
  "fixedPointIteration_loop iterations precision i x prevX results =
     (if i \<le> iterations then
        (let nextX = G x;
             relativeError = (if prevX \<noteq> None then Some (relErr nextX x) else None)
         in bind_exn (parseFloat_toFixed nextX precision) (\<lambda>a.
            bind_exn (case relativeError of
                        Some e \<Rightarrow> bind_exn (parseFloat_toFixed e precision) (\<lambda>r. Inr (Some r))
                      | None \<Rightarrow> Inr None) (\<lambda>r.
            fixedPointIteration_loop iterations precision (i + 1) nextX (Some x)
              (results @ [\<lparr>iteration = i, approximation = a, relativeError = r\<rparr>]))))
      else Inr results)"
  by pat_completeness auto
termination
  by (relation "measure (\<lambda>(iterations, precision, i, x, prevX, results). nat (iterations + 1 - i))")
     auto

definition fixedPointIteration ::
  "jsnum \<Rightarrow> int \<Rightarrow> jsnum \<Rightarrow> int \<Rightarrow> js_exn + IterationResult list" where
  "fixedPointIteration initialGuess iterations targetValue precision =
     fixedPointIteration_loop iterations precision 1 initialGuess None []"

text \<open>
  \<^verbatim>\<open>newtonRaphson\<close> declares \<open>prevX\<close> and never reads it. On a derivative smaller than
  \<open>1e-10\<close> in magnitude it pushes one more record, holding the unrounded \<open>x\<close> and no
  error, and leaves the loop.
\<close>

function newtonRaphson_loop ::
  "int \<Rightarrow> int \<Rightarrow> int \<Rightarrow> jsnum \<Rightarrow> IterationResult list \<Rightarrow> js_exn + IterationResult list" where
  "newtonRaphson_loop iterations precision i x results =
     (if i \<le> iterations then
        (let fx = f x;
             fpx = fPrime x
         in if jlt (Math_abs fpx) (Fin (1 / 10 ^ 10))
            then Inr (results @ [\<lparr>iteration = i, approximation = x, relativeError = None\<rparr>])
            else
              (let nextX = jsub x (jdiv fx fpx);
                   relativeError = relErr nextX x
               in bind_exn (parseFloat_toFixed nextX precision) (\<lambda>a.
                  bind_exn (parseFloat_toFixed relativeError precision) (\<lambda>r.
                  newtonRaphson_loop iterations precision (i + 1) nextX
                    (results @ [\<lparr>iteration = i, approximation = a, relativeError = Some r\<rparr>])))))
      else Inr results)"
  by pat_completeness auto
termination
  by (relation "measure (\<lambda>(iterations, precision, i, x, results). nat (iterations + 1 - i))")
     auto

definition newtonRaphson ::
  "jsnum \<Rightarrow> int \<Rightarrow> jsnum \<Rightarrow> int \<Rightarrow> js_exn + IterationResult list" where
  "newtonRaphson initialGuess iterations targetValue precision =
     newtonRaphson_loop iterations precision 1 initialGuess []"

function secantMethod_loop ::
  "int \<Rightarrow> int \<Rightarrow> int \<Rightarrow> jsnum \<Rightarrow> jsnum \<Rightarrow> IterationResult list
     \<Rightarrow> js_exn + IterationResult list" where
  "secantMethod_loop iterations precision i x0 x1 results =
     (if i \<le> iterations then
        (let fx0 = f x0;
             fx1 = f x1
         in if jlt (Math_abs (jsub fx1 fx0)) (Fin (1 / 10 ^ 10))
            then Inr (results @ [\<lparr>iteration = i, approximation = x1, relativeError = None\<rparr>])
            else
              (let nextX = jsub x1 (jdiv (jmul fx1 (jsub x1 x0)) (jsub fx1 fx0));
                   relativeError = relErr nextX x1
               in bind_exn (parseFloat_toFixed nextX precision) (\<lambda>a.
                  bind_exn (parseFloat_toFixed relativeError precision) (\<lambda>r.
                  secantMethod_loop iterations precision (i + 1) x1 nextX
                    (results @ [\<lparr>iteration = i, approximation = a, relativeError = Some r\<rparr>])))))
      else Inr results)"
  by pat_completeness auto
termination
  by (relation "measure (\<lambda>(iterations, precision, i, x0, x1, results). nat (iterations + 1 - i))")
     auto

definition secantMethod ::
  "jsnum \<Rightarrow> jsnum \<Rightarrow> int \<Rightarrow> jsnum \<Rightarrow> int \<Rightarrow> js_exn + IterationResult list" where
  "secantMethod guess1 guess2 iterations targetValue precision =
     secantMethod_loop iterations precision 1 guess1 guess2 []"

section \<open>The root finders of \<^verbatim>\<open>src/unnamed/part_004\<close>\<close>

text \<open>
  This second copy of the library takes the expression as a string and hands it to mathjs.
  mathjs is not part of the repository, so its functions are parameters here:
  \<open>evaluate e v\<close> stands for \<^verbatim>\<open>evaluate(e, { x: v })\<close>, \<open>mathDerivative e var\<close> for
  \<^verbatim>\<open>derivative(e, var)\<close> and \<open>toString\<close> for \<^verbatim>\<open>node.toString()\<close>; each call may throw.
  The code uses what \<^verbatim>\<open>evaluate\<close> returns as a number without a test, and the model takes it
  to be one. The names carry the suffix \<open>_part004\<close>, since both copies export the same names.
\<close>

function fixedPointIteration_part004_loop ::
  "(string \<Rightarrow> jsnum \<Rightarrow> js_exn + jsnum) \<Rightarrow> string \<Rightarrow> int \<Rightarrow> int \<Rightarrow> int \<Rightarrow> jsnum
     \<Rightarrow> jsnum option \<Rightarrow> IterationResult list \<Rightarrow> js_exn + IterationResult list" where
  "fixedPointIteration_part004_loop evaluate gExpression iterations precision i x prevX results =
     (if i \<le> iterations then
        bind_exn (evaluate gExpression x) (\<lambda>nextX.
          (let relativeError = (if prevX \<noteq> None then Some (relErr nextX x) else None)
           in bind_exn (parseFloat_toFixed nextX precision) (\<lambda>a.
              bind_exn (case relativeError of
                          Some e \<Rightarrow> bind_exn (parseFloat_toFixed e precision) (\<lambda>r. Inr (Some r))
                        | None \<Rightarrow> Inr None) (\<lambda>r.
              fixedPointIteration_part004_loop evaluate gExpression iterations precision (i + 1)
                nextX (Some x)
                (results @ [\<lparr>iteration = i, approximation = a, relativeError = r\<rparr>])))))
      else Inr results)"
  by pat_completeness auto
termination
  by (relation "measure (\<lambda>(evaluate, gExpression, iterations, precision, i, x, prevX, results).
                   nat (iterations + 1 - i))")
     auto

definition fixedPointIteration_part004 ::
  "(string \<Rightarrow> jsnum \<Rightarrow> js_exn + jsnum) \<Rightarrow> string \<Rightarrow> jsnum \<Rightarrow> int \<Rightarrow> int
     \<Rightarrow> js_exn + IterationResult list" where
  "fixedPointIteration_part004 evaluate gExpression initialGuess iterations precision =
     fixedPointIteration_part004_loop evaluate gExpression iterations precision 1 initialGuess
       None []"

text \<open>
  \<^verbatim>\<open>fPrime\<close> of \<^verbatim>\<open>newtonRaphson\<close>: differentiate the expression symbolically, print the
  derivative and evaluate the printed expression at \<open>val\<close>.
\<close>

definition fPrime_part004 ::
  "(string \<Rightarrow> jsnum \<Rightarrow> js_exn + jsnum) \<Rightarrow> (string \<Rightarrow> string \<Rightarrow> js_exn + 'node)
     \<Rightarrow> ('node \<Rightarrow> string) \<Rightarrow> string \<Rightarrow> jsnum \<Rightarrow> js_exn + jsnum" where
  "fPrime_part004 evaluate mathDerivative toString expression val =
     bind_exn (mathDerivative expression ''x'') (\<lambda>symbolicDerivativeNode.
       evaluate (toString symbolicDerivativeNode) val)"

function newtonRaphson_part004_loop ::
  "(string \<Rightarrow> jsnum \<Rightarrow> js_exn + jsnum) \<Rightarrow> (string \<Rightarrow> string \<Rightarrow> js_exn + 'node)
     \<Rightarrow> ('node \<Rightarrow> string) \<Rightarrow> string \<Rightarrow> int \<Rightarrow> int \<Rightarrow> int \<Rightarrow> jsnum
     \<Rightarrow> IterationResult list \<Rightarrow> js_exn + IterationResult list" where
  "newtonRaphson_part004_loop evaluate mathDerivative toString expression iterations precision
       i x results =
     (if i \<le> iterations then
        bind_exn (evaluate expression x) (\<lambda>fx.
        bind_exn (fPrime_part004 evaluate mathDerivative toString expression x) (\<lambda>fpx.
          if jlt (Math_abs fpx) (Fin (1 / 10 ^ 10)) then Inr results
          else
            (let nextX = jsub x (jdiv fx fpx);
                 relativeError = relErr nextX x
             in bind_exn (parseFloat_toFixed nextX precision) (\<lambda>a.
                bind_exn (parseFloat_toFixed relativeError precision) (\<lambda>r.
                newtonRaphson_part004_loop evaluate mathDerivative toString expression iterations
                  precision (i + 1) nextX
                  (results @ [\<lparr>iteration = i, approximation = a, relativeError = Some r\<rparr>]))))))
      else Inr results)"
  by pat_completeness auto
termination
  by (relation "measure (\<lambda>(evaluate, mathDerivative, toString, expression, iterations,
                            precision, i, x, results). nat (iterations + 1 - i))")
     auto

definition newtonRaphson_part004 ::
  "(string \<Rightarrow> jsnum \<Rightarrow> js_exn + jsnum) \<Rightarrow> (string \<Rightarrow> string \<Rightarrow> js_exn + 'node)
     \<Rightarrow> ('node \<Rightarrow> string) \<Rightarrow> string \<Rightarrow> jsnum \<Rightarrow> int \<Rightarrow> int
     \<Rightarrow> js_exn + IterationResult list" where
  "newtonRaphson_part004 evaluate mathDerivative toString expression initialGuess iterations
       precision =
     newtonRaphson_part004_loop evaluate mathDerivative toString expression iterations precision
       1 initialGuess []"

function secantMethod_part004_loop ::
  "(string \<Rightarrow> jsnum \<Rightarrow> js_exn + jsnum) \<Rightarrow> string \<Rightarrow> int \<Rightarrow> int \<Rightarrow> int \<Rightarrow> jsnum \<Rightarrow> jsnum
     \<Rightarrow> IterationResult list \<Rightarrow> js_exn + IterationResult list" where
  "secantMethod_part004_loop evaluate expression iterations precision i x0 x1 results =
     (if i \<le> iterations then
        bind_exn (evaluate expression x0) (\<lambda>fx0.
        bind_exn (evaluate expression x1) (\<lambda>fx1.
          if jlt (Math_abs (jsub fx1 fx0)) (Fin (1 / 10 ^ 10)) then Inr results
          else
            (let nextX = jsub x1 (jdiv (jmul fx1 (jsub x1 x0)) (jsub fx1 fx0));
                 relativeError = relErr nextX x1
             in bind_exn (parseFloat_toFixed nextX precision) (\<lambda>a.
                bind_exn (parseFloat_toFixed relativeError precision) (\<lambda>r.
                secantMethod_part004_loop evaluate expression iterations precision (i + 1) x1
                  nextX
                  (results @ [\<lparr>iteration = i, approximation = a, relativeError = Some r\<rparr>]))))))
      else Inr results)"
  by pat_completeness auto
termination
  by (relation "measure (\<lambda>(evaluate, expression, iterations, precision, i, x0, x1, results).
                   nat (iterations + 1 - i))")
     auto

definition secantMethod_part004 ::
  "(string \<Rightarrow> jsnum \<Rightarrow> js_exn + jsnum) \<Rightarrow> string \<Rightarrow> jsnum \<Rightarrow> jsnum \<Rightarrow> int \<Rightarrow> int
     \<Rightarrow> js_exn + IterationResult list" where
  "secantMethod_part004 evaluate expression guess1 guess2 iterations precision =
     secantMethod_part004_loop evaluate expression iterations precision 1 guess1 guess2 []"

section \<open>The derivative approximator of \<^verbatim>\<open>src/lib/math-utils.ts\<close>\<close>

text \<open>
  What \<^verbatim>\<open>node.evaluate(scope)\<close> returns is tested with \<^verbatim>\<open>typeof\<close>, so a result is either a
  number or some other value. mathjs is a parameter again: \<open>compile e\<close> for \<^verbatim>\<open>compile(e)\<close>,
  \<open>node_evaluate n v\<close> for \<^verbatim>\<open>n.evaluate({ x: v })\<close>, \<open>mathDerivative e var\<close> for
  \<^verbatim>\<open>derivative(e, var)\<close>. The function returns a \<^verbatim>\<open>DerivativeResult\<close> or an object
  \<^verbatim>\<open>{ error: string }\<close>.
\<close>

datatype jsval = JSNumber jsnum | JSOther

datatype derivative_outcome = ErrorObject string | Result DerivativeResult

definition safeEvaluate :: "('node \<Rightarrow> jsnum \<Rightarrow> js_exn + jsval) \<Rightarrow> 'node \<Rightarrow> jsnum \<Rightarrow> jsnum option" where
  "safeEvaluate node_evaluate node v =
     (case node_evaluate node v of
        Inr result \<Rightarrow>
          (case result of
             JSOther \<Rightarrow> None
           | JSNumber n \<Rightarrow> if \<not> isFinite n then None else Some n)
      | Inl error \<Rightarrow> None)"

definition safeDerivative ::
  "(string \<Rightarrow> string \<Rightarrow> js_exn + 'node) \<Rightarrow> string \<Rightarrow> string \<Rightarrow> 'node option" where
  "safeDerivative mathDerivative expression variable =
     (case mathDerivative expression variable of
        Inr node \<Rightarrow> Some node
      | Inl error \<Rightarrow> None)"

definition calculateError :: "jsnum \<Rightarrow> jsnum option \<Rightarrow> jsnum option" where
  "calculateError approx exact =
     (case exact of
        None \<Rightarrow> None
      | Some e \<Rightarrow>
          if jlt (Math_abs e) (Fin (1 / 10 ^ 10)) then None
          else Some (jmul (Math_abs (jdiv (jsub approx e) e)) (Fin 100)))"

definition round_opt :: "jsnum option \<Rightarrow> int \<Rightarrow> js_exn + jsnum option" where
  "round_opt v precision =
     (case v of
        Some e \<Rightarrow> bind_exn (parseFloat_toFixed e precision) (\<lambda>r. Inr (Some r))
      | None \<Rightarrow> Inr None)"

text \<open>The body of the \<^verbatim>\<open>try\<close> block.\<close>

definition approximateDerivative_try ::
  "(string \<Rightarrow> js_exn + 'node) \<Rightarrow> ('node \<Rightarrow> jsnum \<Rightarrow> js_exn + jsval)
     \<Rightarrow> (string \<Rightarrow> string \<Rightarrow> js_exn + 'node)
     \<Rightarrow> string \<Rightarrow> jsnum \<Rightarrow> jsnum \<Rightarrow> int \<Rightarrow> js_exn + derivative_outcome" where
  "approximateDerivative_try compile node_evaluate mathDerivative expression guessValue h
       precision =
     bind_exn (compile expression) (\<lambda>compiledExpr.
       (let f_x = safeEvaluate node_evaluate compiledExpr guessValue;
            f_x_plus_h = safeEvaluate node_evaluate compiledExpr (jadd guessValue h);
            f_x_minus_h = safeEvaluate node_evaluate compiledExpr (jsub guessValue h)
        in case (f_x, f_x_plus_h, f_x_minus_h) of
             (Some fx, Some fxp, Some fxm) \<Rightarrow>
               (let forwardDiff = jdiv (jsub fxp fx) h;
                    backwardDiff = jdiv (jsub fx fxm) h;
                    centeredDiff = jdiv (jsub fxp fxm) (jmul (Fin 2) h);
                    symbolicDerivativeNode = safeDerivative mathDerivative expression ''x'';
                    symbolicDerivativeValue =
                      (case symbolicDerivativeNode of
                         Some node \<Rightarrow> safeEvaluate node_evaluate node guessValue
                       | None \<Rightarrow> None);
                    forwardError = calculateError forwardDiff symbolicDerivativeValue;
                    backwardError = calculateError backwardDiff symbolicDerivativeValue;
                    centeredError = calculateError centeredDiff symbolicDerivativeValue
                in bind_exn (parseFloat_toFixed forwardDiff precision) (\<lambda>fw.
                   bind_exn (parseFloat_toFixed backwardDiff precision) (\<lambda>bw.
                   bind_exn (parseFloat_toFixed centeredDiff precision) (\<lambda>ce.
                   bind_exn (round_opt forwardError precision) (\<lambda>fwe.
                   bind_exn (round_opt backwardError precision) (\<lambda>bwe.
                   bind_exn (round_opt centeredError precision) (\<lambda>cee.
                   bind_exn (round_opt symbolicDerivativeValue precision) (\<lambda>sy.
                   Inr (Result \<lparr>forward = fw, backward = bw, centered = ce,
                          forwardError = fwe, backwardError = bwe, centeredError = cee,
                          symbolic = sy\<rparr>)))))))))
           | _ \<Rightarrow>
               Inr (ErrorObject
                 (''Failed to evaluate expression at necessary points. Check expression syntax ''
                  @ ''and ensure it'' @ [CHR 0x27] @ ''s valid for the given x values.''))))"

text \<open>The \<^verbatim>\<open>catch\<close> block.\<close>

definition approximateDerivative_catch :: "js_exn \<Rightarrow> derivative_outcome" where
  "approximateDerivative_catch error =
     (if instanceof_Error error \<and> str_includes (message error) ''Undefined symbol''
      then ErrorObject (''Invalid expression: '' @ message error
                        @ ''. Ensure all variables and functions are defined.'')
      else if instanceof_SyntaxError error
      then ErrorObject (''Syntax error in expression: '' @ message error)
      else ErrorObject
             ''An error occurred during derivative calculation. Please check the expression and inputs.'')"

definition approximateDerivative ::
  "(string \<Rightarrow> js_exn + 'node) \<Rightarrow> ('node \<Rightarrow> jsnum \<Rightarrow> js_exn + jsval)
     \<Rightarrow> (string \<Rightarrow> string \<Rightarrow> js_exn + 'node)
     \<Rightarrow> string \<Rightarrow> jsnum \<Rightarrow> jsnum \<Rightarrow> int \<Rightarrow> js_exn + derivative_outcome" where
  "approximateDerivative compile node_evaluate mathDerivative expression guessValue h precision =
     (case approximateDerivative_try compile node_evaluate mathDerivative expression guessValue
             h precision of
        Inr outcome \<Rightarrow> Inr outcome
      | Inl error \<Rightarrow> Inr (approximateDerivative_catch error))"

section \<open>The derivative approximator of \<^verbatim>\<open>src/unnamed/part_004\<close>\<close>

text \<open>
  No \<^verbatim>\<open>safeEvaluate\<close> and no \<^verbatim>\<open>safeDerivative\<close> here: the three values of the expression and
  the value of its derivative are used as they come, the error fields are not rounded, and
  one message answers every exception. \<open>node_evaluate\<close> returns a number, as in the root
  finders of this copy.
\<close>

definition calcError :: "jsnum \<Rightarrow> jsnum option \<Rightarrow> jsnum option" where
  "calcError approx exact =
     (case exact of
        None \<Rightarrow> None
      | Some e \<Rightarrow>
          if jlt (Math_abs e) (Fin (1 / 10 ^ 10)) then None
          else Some (jmul (Math_abs (jdiv (jsub approx e) e)) (Fin 100)))"

definition approximateDerivative_part004_try ::
  "(string \<Rightarrow> js_exn + 'node) \<Rightarrow> ('node \<Rightarrow> jsnum \<Rightarrow> js_exn + jsnum)
     \<Rightarrow> (string \<Rightarrow> string \<Rightarrow> js_exn + 'dnode) \<Rightarrow> ('dnode \<Rightarrow> string)
     \<Rightarrow> (string \<Rightarrow> jsnum \<Rightarrow> js_exn + jsnum)
     \<Rightarrow> string \<Rightarrow> jsnum \<Rightarrow> jsnum \<Rightarrow> int \<Rightarrow> js_exn + derivative_outcome" where
  "approximateDerivative_part004_try compile node_evaluate mathDerivative toString evaluate
       expression guessValue h precision =
     bind_exn (compile expression) (\<lambda>compiledExpr.
     bind_exn (node_evaluate compiledExpr guessValue) (\<lambda>f_x.
     bind_exn (node_evaluate compiledExpr (jadd guessValue h)) (\<lambda>f_x_plus_h.
     bind_exn (node_evaluate compiledExpr (jsub guessValue h)) (\<lambda>f_x_minus_h.
       (let forwardDiff = jdiv (jsub f_x_plus_h f_x) h;
            backwardDiff = jdiv (jsub f_x f_x_minus_h) h;
            centeredDiff = jdiv (jsub f_x_plus_h f_x_minus_h) (jmul (Fin 2) h)
        in bind_exn (mathDerivative expression ''x'') (\<lambda>symbolicDerivativeNode.
           bind_exn (evaluate (toString symbolicDerivativeNode) guessValue)
             (\<lambda>symbolicDerivativeValue.
           bind_exn (parseFloat_toFixed forwardDiff precision) (\<lambda>fw.
           bind_exn (parseFloat_toFixed backwardDiff precision) (\<lambda>bw.
           bind_exn (parseFloat_toFixed centeredDiff precision) (\<lambda>ce.
           bind_exn (parseFloat_toFixed symbolicDerivativeValue precision) (\<lambda>sy.
           Inr (Result \<lparr>forward = fw, backward = bw, centered = ce,
                  forwardError = calcError forwardDiff (Some symbolicDerivativeValue),
                  backwardError = calcError backwardDiff (Some symbolicDerivativeValue),
                  centeredError = calcError centeredDiff (Some symbolicDerivativeValue),
                  symbolic = Some sy\<rparr>))))))))))))"

definition approximateDerivative_part004 ::
  "(string \<Rightarrow> js_exn + 'node) \<Rightarrow> ('node \<Rightarrow> jsnum \<Rightarrow> js_exn + jsnum)
     \<Rightarrow> (string \<Rightarrow> string \<Rightarrow> js_exn + 'dnode) \<Rightarrow> ('dnode \<Rightarrow> string)
     \<Rightarrow> (string \<Rightarrow> jsnum \<Rightarrow> js_exn + jsnum)
     \<Rightarrow> string \<Rightarrow> jsnum \<Rightarrow> jsnum \<Rightarrow> int \<Rightarrow> js_exn + derivative_outcome" where
  "approximateDerivative_part004 compile node_evaluate mathDerivative toString evaluate
       expression guessValue h precision =
     (case approximateDerivative_part004_try compile node_evaluate mathDerivative toString
             evaluate expression guessValue h precision of
        Inr outcome \<Rightarrow> Inr outcome
      | Inl error \<Rightarrow> Inr (ErrorObject ''An error occurred during derivative calculation.''))"

section \<open>Notions used to state the properties\<close>

text \<open>
  The iterates as the specification writes them, \<open>x\<^sub>0\<close> the initial guess and
  \<open>x\<^bsub>k+1\<^esub> = g(x\<^sub>k)\<close>: \<open>fixed_point_iterate evaluate g k x\<close> evaluates \<open>g\<close> \<open>k\<close> times from
  \<open>x\<close>, and throws what the first failing evaluation throws.
\<close>

fun fixed_point_iterate ::
  "(string \<Rightarrow> jsnum \<Rightarrow> js_exn + jsnum) \<Rightarrow> string \<Rightarrow> nat \<Rightarrow> jsnum \<Rightarrow> js_exn + jsnum" where
  "fixed_point_iterate evaluate g 0 x = Inr x"
| "fixed_point_iterate evaluate g (Suc k) x =
     bind_exn (evaluate g x) (fixed_point_iterate evaluate g k)"

text \<open>
  A number has at most \<open>p\<close> digits after the decimal point when \<open>10\<^sup>p\<close> times it is an
  integer; NaN and the infinities have no digits.
\<close>

fun decimals_at_most :: "nat \<Rightarrow> jsnum \<Rightarrow> bool" where
  "decimals_at_most p (Fin a) = (of_int \<lfloor>a * 10 ^ p\<rfloor> = a * 10 ^ p)"
| "decimals_at_most p _ = True"

text \<open>
  \<open>rounded p v\<close> is the number \<^verbatim>\<open>parseFloat(v.toFixed(p))\<close> when \<^verbatim>\<open>toFixed\<close> accepts \<open>p\<close>, and
  \<open>relative_error_percent a b\<close> is the relative error as the specification writes it,
  \<open>|a - b| / |a| * 100\<close>.
\<close>

definition rounded :: "int \<Rightarrow> jsnum \<Rightarrow> jsnum" where
  "rounded p v =
     (case v of
        Fin a \<Rightarrow> if 10 ^ 21 \<le> \<bar>a\<bar> then Fin a else Fin (round_half_away (nat p) a)
      | PInf \<Rightarrow> PInf
      | NInf \<Rightarrow> NInf
      | NaN \<Rightarrow> NaN)"

definition relative_error_percent :: "jsnum \<Rightarrow> jsnum \<Rightarrow> jsnum" where
  "relative_error_percent a b = jmul (jdiv (Math_abs (jsub a b)) (Math_abs a)) (Fin 100)"

definition near_zero :: "jsnum \<Rightarrow> bool" where
  "near_zero v = jlt (Math_abs v) (Fin (1 / 10 ^ 10))"

text \<open>
  Newton-Raphson as section 4.2 of the specification describes it, for a function \<open>F\<close> and
  a derivative \<open>F'\<close> that may both fail: at each of at most \<open>m\<close> steps, numbered from \<open>k\<close>,
  compute \<open>F x\<close> and \<open>F' x\<close>; stop with the records made so far if \<open>|F' x| < 1e-10\<close>;
  otherwise the step's record holds the rounded \<open>x - F x / F' x\<close> and the rounded relative
  error, and the next step starts from the unrounded \<open>x - F x / F' x\<close>. The derivative of
  the specification is \<open>symbolic_derivative_at\<close>: differentiate the expression with respect
  to \<open>x\<close>, then evaluate what the derivative prints as.
\<close>

definition symbolic_derivative_at ::
  "(string \<Rightarrow> jsnum \<Rightarrow> js_exn + jsnum) \<Rightarrow> (string \<Rightarrow> string \<Rightarrow> js_exn + 'node)
     \<Rightarrow> ('node \<Rightarrow> string) \<Rightarrow> string \<Rightarrow> jsnum \<Rightarrow> js_exn + jsnum" where
  "symbolic_derivative_at evaluate mathDerivative toString expression v =
     (case mathDerivative expression ''x'' of
        Inl error \<Rightarrow> Inl error
      | Inr derivative_node \<Rightarrow> evaluate (toString derivative_node) v)"

fun Newton_Raphson_spec ::
  "(jsnum \<Rightarrow> js_exn + jsnum) \<Rightarrow> (jsnum \<Rightarrow> js_exn + jsnum) \<Rightarrow> int \<Rightarrow> nat \<Rightarrow> int \<Rightarrow> jsnum
     \<Rightarrow> js_exn + IterationResult list" where
  "Newton_Raphson_spec F F' p 0 k x = Inr []"
| "Newton_Raphson_spec F F' p (Suc m) k x =
     (case F x of
        Inl error \<Rightarrow> Inl error
      | Inr fx \<Rightarrow>
          (case F' x of
             Inl error \<Rightarrow> Inl error
           | Inr fpx \<Rightarrow>
               if near_zero fpx then Inr []
               else
                 (case parseFloat_toFixed (jsub x (jdiv fx fpx)) p of
                    Inl error \<Rightarrow> Inl error
                  | Inr a \<Rightarrow>
                      (case parseFloat_toFixed
                              (relative_error_percent (jsub x (jdiv fx fpx)) x) p of
                         Inl error \<Rightarrow> Inl error
                       | Inr r \<Rightarrow>
                           (case Newton_Raphson_spec F F' p m (k + 1) (jsub x (jdiv fx fpx)) of
                              Inl error \<Rightarrow> Inl error
                            | Inr later \<Rightarrow>
                                Inr (\<lparr>iteration = k, approximation = a,
                                       relativeError = Some r\<rparr> # later))))))"

text \<open>
  The same for the functions built into \<^verbatim>\<open>math-utils.ts\<close>, which cannot fail, at a precision
  \<^verbatim>\<open>toFixed\<close> accepts: \<open>newton_next x\<close> is \<open>x - f(x)/f'(x)\<close> for \<open>f(x) = ln x - 1\<close> and
  \<open>f'(x) = 1/x\<close>, and \<open>newtonRaphson_records p m k x\<close> are the records of at most \<open>m\<close>
  steps from \<open>x\<close>, numbered from \<open>k\<close>; a degenerate step closes the list with a record of
  the current \<open>x\<close>. \<open>fixedPointIteration_records p m k x prev\<close> are the records of \<open>m\<close>
  steps of \<open>x \<mapsto> G x\<close>; a record has an error when there is a previous iterate \<open>prev\<close>.
\<close>

definition newton_next :: "jsnum \<Rightarrow> jsnum" where
  "newton_next x = jsub x (jdiv (f x) (fPrime x))"

fun newtonRaphson_records :: "int \<Rightarrow> nat \<Rightarrow> int \<Rightarrow> jsnum \<Rightarrow> IterationResult list" where
  "newtonRaphson_records p 0 k x = []"
| "newtonRaphson_records p (Suc m) k x =
     (if near_zero (fPrime x)
      then [\<lparr>iteration = k, approximation = x, relativeError = None\<rparr>]
      else \<lparr>iteration = k, approximation = rounded p (newton_next x),
             relativeError = Some (rounded p (relative_error_percent (newton_next x) x))\<rparr>
           # newtonRaphson_records p m (k + 1) (newton_next x))"


text \<open>The comparison \<^verbatim>\<open>>=\<close>, false like every comparison when an operand is NaN.\<close>

fun jge :: "jsnum \<Rightarrow> jsnum \<Rightarrow> bool" where
  "jge NaN _ = False"
| "jge _ NaN = False"
| "jge a b = (\<not> jlt a b)"

section \<open>A stand-in for mathjs on a few expressions\<close>

text \<open>
  To run the functions of \<^verbatim>\<open>part_004\<close> and \<^verbatim>\<open>approximateDerivative\<close> on concrete inputs the
  parameters need values. These know a handful of expressions and their derivatives, with
  nodes represented by the text they print as; an expression they do not know is an
  undefined symbol to \<open>demo_evaluate\<close> and a syntax error to \<open>demo_compile\<close>.
  \<open>demo_derivative\<close> stands for mathjs only on \<open>x^2\<close>, \<open>2 * x\<close>, \<open>1/x\<close> and \<open>abs(x)\<close>;
  no statement below differentiates anything else with it.
\<close>

definition demo_evaluate :: "string \<Rightarrow> jsnum \<Rightarrow> js_exn + jsnum" where
  "demo_evaluate e v =
     (if e = ''x^2'' then Inr (jmul v v)
      else if e = ''2 * x'' then Inr (jmul (Fin 2) v)
      else if e = ''2'' then Inr (Fin 2)
      else if e = ''1/x'' then Inr (jdiv (Fin 1) v)
      else if e = ''-(1 / x ^ 2)'' then Inr (jneg (jdiv (Fin 1) (jmul v v)))
      else if e = ''abs(x)'' then Inr (Math_abs v)
      else if e = ''abs(x) / x'' then Inr (jdiv (Math_abs v) v)
      else Inl (Error (''Undefined symbol '' @ e)))"

definition demo_derivative :: "string \<Rightarrow> string \<Rightarrow> js_exn + string" where
  "demo_derivative e var =
     (if var = ''x'' \<and> e = ''x^2'' then Inr ''2 * x''
      else if var = ''x'' \<and> e = ''2 * x'' then Inr ''2''
      else if var = ''x'' \<and> e = ''1/x'' then Inr ''-(1 / x ^ 2)''
      else if var = ''x'' \<and> e = ''abs(x)'' then Inr ''abs(x) / x''
      else Inl (Error ''derivative: expression not supported''))"

definition demo_toString :: "string \<Rightarrow> string" where
  "demo_toString node = node"

definition demo_compile :: "string \<Rightarrow> js_exn + string" where
  "demo_compile e =
     (if e \<in> set [''x^2'', ''2 * x'', ''2'', ''1/x'', ''-(1 / x ^ 2)'', ''abs(x)'',
                    ''abs(x) / x'']
      then Inr e
      else Inl (SyntaxError ''Unexpected input''))"

definition demo_node_evaluate :: "string \<Rightarrow> jsnum \<Rightarrow> js_exn + jsval" where
  "demo_node_evaluate node v =
     (case demo_evaluate node v of Inl e \<Rightarrow> Inl e | Inr n \<Rightarrow> Inr (JSNumber n))"

section \<open>Auxiliary facts about the loops\<close>

declare fixedPointIteration_loop.simps [simp del]
declare newtonRaphson_loop.simps [simp del]
declare secantMethod_loop.simps [simp del]
declare fixedPointIteration_part004_loop.simps [simp del]
declare newtonRaphson_part004_loop.simps [simp del]
declare secantMethod_part004_loop.simps [simp del]

lemma bind_exn_Inr [simp]: "bind_exn (Inr a) k = k a"
  by (simp add: bind_exn_def)

lemma bind_exn_Inl [simp]: "bind_exn (Inl e) k = Inl e"
  by (simp add: bind_exn_def)

lemma bind_exn_Inr_iff: "bind_exn m k = Inr y \<longleftrightarrow> (\<exists>a. m = Inr a \<and> k a = Inr y)"
  by (cases m) simp_all

lemma parseFloat_toFixed_returns:
  "0 \<le> p \<Longrightarrow> p \<le> 100 \<Longrightarrow> \<exists>a. parseFloat_toFixed v p = Inr a"
  by (simp add: parseFloat_toFixed_def)

lemma round_opt_returns:
  "0 \<le> p \<Longrightarrow> p \<le> 100 \<Longrightarrow> \<exists>a. round_opt v p = Inr a \<and> (a = None \<longleftrightarrow> v = None)"
  by (cases v) (simp_all add: round_opt_def parseFloat_toFixed_def)

subsection \<open>One pass of each loop\<close>

lemma fixedPointIteration_loop_done:
  "\<not> i \<le> n \<Longrightarrow> fixedPointIteration_loop n p i x prev rs = Inr rs"
  by (simp add: fixedPointIteration_loop.simps [of n p i])

lemma fixedPointIteration_loop_first:
  assumes "i \<le> n" and "parseFloat_toFixed (G x) p = Inr a"
  shows "fixedPointIteration_loop n p i x None rs =
         fixedPointIteration_loop n p (i + 1) (G x) (Some x)
           (rs @ [\<lparr>iteration = i, approximation = a, relativeError = None\<rparr>])"
  using assms by (simp add: fixedPointIteration_loop.simps [of n p i] Let_def)

lemma fixedPointIteration_loop_later:
  assumes "i \<le> n" and "parseFloat_toFixed (G x) p = Inr a"
    and "parseFloat_toFixed (relErr (G x) x) p = Inr r"
  shows "fixedPointIteration_loop n p i x (Some y) rs =
         fixedPointIteration_loop n p (i + 1) (G x) (Some x)
           (rs @ [\<lparr>iteration = i, approximation = a, relativeError = Some r\<rparr>])"
  using assms by (simp add: fixedPointIteration_loop.simps [of n p i] Let_def)

lemma newtonRaphson_loop_done:
  "\<not> i \<le> n \<Longrightarrow> newtonRaphson_loop n p i x rs = Inr rs"
  by (simp add: newtonRaphson_loop.simps [of n p i])

lemma newtonRaphson_loop_stop:
  assumes "i \<le> n" and "jlt (Math_abs (fPrime x)) (Fin (1 / 10 ^ 10))"
  shows "newtonRaphson_loop n p i x rs =
         Inr (rs @ [\<lparr>iteration = i, approximation = x, relativeError = None\<rparr>])"
  using assms by (simp add: newtonRaphson_loop.simps [of n p i] Let_def)

lemma newtonRaphson_loop_step:
  assumes "i \<le> n" and "\<not> jlt (Math_abs (fPrime x)) (Fin (1 / 10 ^ 10))"
    and "parseFloat_toFixed (jsub x (jdiv (f x) (fPrime x))) p = Inr a"
    and "parseFloat_toFixed (relErr (jsub x (jdiv (f x) (fPrime x))) x) p = Inr r"
  shows "newtonRaphson_loop n p i x rs =
         newtonRaphson_loop n p (i + 1) (jsub x (jdiv (f x) (fPrime x)))
           (rs @ [\<lparr>iteration = i, approximation = a, relativeError = Some r\<rparr>])"
  using assms by (simp add: newtonRaphson_loop.simps [of n p i] Let_def)

lemma secantMethod_loop_done:
  "\<not> i \<le> n \<Longrightarrow> secantMethod_loop n p i x0 x1 rs = Inr rs"
  by (simp add: secantMethod_loop.simps [of n p i])

lemma secantMethod_loop_stop:
  assumes "i \<le> n" and "jlt (Math_abs (jsub (f x1) (f x0))) (Fin (1 / 10 ^ 10))"
  shows "secantMethod_loop n p i x0 x1 rs =
         Inr (rs @ [\<lparr>iteration = i, approximation = x1, relativeError = None\<rparr>])"
  using assms by (simp add: secantMethod_loop.simps [of n p i] Let_def)

lemma secantMethod_loop_step:
  assumes "i \<le> n" and "\<not> jlt (Math_abs (jsub (f x1) (f x0))) (Fin (1 / 10 ^ 10))"
    and "nextX = jsub x1 (jdiv (jmul (f x1) (jsub x1 x0)) (jsub (f x1) (f x0)))"
    and "parseFloat_toFixed nextX p = Inr a"
    and "parseFloat_toFixed (relErr nextX x1) p = Inr r"
  shows "secantMethod_loop n p i x0 x1 rs =
         secantMethod_loop n p (i + 1) x1 nextX
           (rs @ [\<lparr>iteration = i, approximation = a, relativeError = Some r\<rparr>])"
  using assms by (simp add: secantMethod_loop.simps [of n p i] Let_def)

lemma fixedPointIteration_part004_loop_done:
  "\<not> i \<le> n \<Longrightarrow> fixedPointIteration_part004_loop ev g n p i x prev rs = Inr rs"
  by (simp add: fixedPointIteration_part004_loop.simps [of ev g n p i])

lemma fixedPointIteration_part004_loop_throws:
  assumes "i \<le> n" and "ev g x = Inl e"
  shows "fixedPointIteration_part004_loop ev g n p i x prev rs = Inl e"
  using assms by (simp add: fixedPointIteration_part004_loop.simps [of ev g n p i])

lemma fixedPointIteration_part004_loop_first:
  assumes "i \<le> n" and "ev g x = Inr nextX" and "parseFloat_toFixed nextX p = Inr a"
  shows "fixedPointIteration_part004_loop ev g n p i x None rs =
         fixedPointIteration_part004_loop ev g n p (i + 1) nextX (Some x)
           (rs @ [\<lparr>iteration = i, approximation = a, relativeError = None\<rparr>])"
  using assms by (simp add: fixedPointIteration_part004_loop.simps [of ev g n p i] Let_def)

lemma fixedPointIteration_part004_loop_later:
  assumes "i \<le> n" and "ev g x = Inr nextX" and "parseFloat_toFixed nextX p = Inr a"
    and "parseFloat_toFixed (relErr nextX x) p = Inr r"
  shows "fixedPointIteration_part004_loop ev g n p i x (Some y) rs =
         fixedPointIteration_part004_loop ev g n p (i + 1) nextX (Some x)
           (rs @ [\<lparr>iteration = i, approximation = a, relativeError = Some r\<rparr>])"
  using assms by (simp add: fixedPointIteration_part004_loop.simps [of ev g n p i] Let_def)

lemma newtonRaphson_part004_loop_done:
  "\<not> i \<le> n \<Longrightarrow> newtonRaphson_part004_loop ev md ts e n p i x rs = Inr rs"
  by (simp add: newtonRaphson_part004_loop.simps [of ev md ts e n p i])

lemma newtonRaphson_part004_loop_stop:
  assumes "i \<le> n" and "ev e x = Inr fx" and "fPrime_part004 ev md ts e x = Inr fpx"
    and "jlt (Math_abs fpx) (Fin (1 / 10 ^ 10))"
  shows "newtonRaphson_part004_loop ev md ts e n p i x rs = Inr rs"
  using assms by (simp add: newtonRaphson_part004_loop.simps [of ev md ts e n p i])

lemma newtonRaphson_part004_loop_step:
  assumes "i \<le> n" and "ev e x = Inr fx" and "fPrime_part004 ev md ts e x = Inr fpx"
    and "\<not> jlt (Math_abs fpx) (Fin (1 / 10 ^ 10))"
    and "parseFloat_toFixed (jsub x (jdiv fx fpx)) p = Inr a"
    and "parseFloat_toFixed (relErr (jsub x (jdiv fx fpx)) x) p = Inr r"
  shows "newtonRaphson_part004_loop ev md ts e n p i x rs =
         newtonRaphson_part004_loop ev md ts e n p (i + 1) (jsub x (jdiv fx fpx))
           (rs @ [\<lparr>iteration = i, approximation = a, relativeError = Some r\<rparr>])"
  using assms by (simp add: newtonRaphson_part004_loop.simps [of ev md ts e n p i] Let_def)

lemma secantMethod_part004_loop_done:
  "\<not> i \<le> n \<Longrightarrow> secantMethod_part004_loop ev e n p i x0 x1 rs = Inr rs"
  by (simp add: secantMethod_part004_loop.simps [of ev e n p i])

lemma secantMethod_part004_loop_stop:
  assumes "i \<le> n" and "ev e x0 = Inr fx0" and "ev e x1 = Inr fx1"
    and "jlt (Math_abs (jsub fx1 fx0)) (Fin (1 / 10 ^ 10))"
  shows "secantMethod_part004_loop ev e n p i x0 x1 rs = Inr rs"
  using assms by (simp add: secantMethod_part004_loop.simps [of ev e n p i])

lemma secantMethod_part004_loop_step:
  assumes "i \<le> n" and "ev e x0 = Inr fx0" and "ev e x1 = Inr fx1"
    and "\<not> jlt (Math_abs (jsub fx1 fx0)) (Fin (1 / 10 ^ 10))"
    and "nextX = jsub x1 (jdiv (jmul fx1 (jsub x1 x0)) (jsub fx1 fx0))"
    and "parseFloat_toFixed nextX p = Inr a"
    and "parseFloat_toFixed (relErr nextX x1) p = Inr r"
  shows "secantMethod_part004_loop ev e n p i x0 x1 rs =
         secantMethod_part004_loop ev e n p (i + 1) x1 nextX
           (rs @ [\<lparr>iteration = i, approximation = a, relativeError = Some r\<rparr>])"
  using assms by (simp add: secantMethod_part004_loop.simps [of ev e n p i] Let_def)

subsection \<open>The \<open>iteration\<close> fields of what a loop returns\<close>

lemma fixedPointIteration_loop_fields:
  "fixedPointIteration_loop n p i x prev rs = Inr out
     \<Longrightarrow> map iteration out = map iteration rs @ [i..n]"
proof (induction n p i x prev rs arbitrary: out rule: fixedPointIteration_loop.induct)
  case (1 n p i x prev rs)
  show ?case
  proof (cases "i \<le> n")
    case True
    from "1.prems" True obtain a r where
      "fixedPointIteration_loop n p (i + 1) (G x) (Some x)
         (rs @ [\<lparr>iteration = i, approximation = a, relativeError = r\<rparr>]) = Inr out"
      by (auto simp: fixedPointIteration_loop.simps [of n p i] bind_exn_Inr_iff Let_def)
    from "1.IH" [OF True refl refl this] True show ?thesis
      by (simp add: upto_rec1)
  next
    case False
    with "1.prems" show ?thesis
      by (simp add: fixedPointIteration_loop_done)
  qed
qed

lemma fixedPointIteration_part004_loop_fields:
  "fixedPointIteration_part004_loop ev g n p i x prev rs = Inr out
     \<Longrightarrow> map iteration out = map iteration rs @ [i..n]"
proof (induction ev g n p i x prev rs arbitrary: out
    rule: fixedPointIteration_part004_loop.induct)
  case (1 ev g n p i x prev rs)
  show ?case
  proof (cases "i \<le> n")
    case True
    from "1.prems" True obtain nx a r where
      "fixedPointIteration_part004_loop ev g n p (i + 1) nx (Some x)
         (rs @ [\<lparr>iteration = i, approximation = a, relativeError = r\<rparr>]) = Inr out"
      by (auto simp: fixedPointIteration_part004_loop.simps [of ev g n p i] bind_exn_Inr_iff
            Let_def)
    from "1.IH" [OF True refl this] True show ?thesis
      by (simp add: upto_rec1)
  next
    case False
    with "1.prems" show ?thesis
      by (simp add: fixedPointIteration_part004_loop_done)
  qed
qed

lemma newtonRaphson_loop_fields:
  "newtonRaphson_loop n p i x rs = Inr out
     \<Longrightarrow> \<exists>k. i - 1 \<le> k \<and> k \<le> max n (i - 1) \<and> map iteration out = map iteration rs @ [i..k]"
proof (induction n p i x rs arbitrary: out rule: newtonRaphson_loop.induct)
  case (1 n p i x rs)
  show ?case
  proof (cases "i \<le> n")
    case True
    show ?thesis
    proof (cases "jlt (Math_abs (fPrime x)) (Fin (1 / 10 ^ 10))")
      case stop: True
      with "1.prems" True
      have "out = rs @ [\<lparr>iteration = i, approximation = x, relativeError = None\<rparr>]"
        by (simp add: newtonRaphson_loop_stop)
      with True show ?thesis
        by (intro exI [of _ i]) simp
    next
      case go: False
      with "1.prems" True obtain a r where
        "newtonRaphson_loop n p (i + 1) (jsub x (jdiv (f x) (fPrime x)))
           (rs @ [\<lparr>iteration = i, approximation = a, relativeError = Some r\<rparr>]) = Inr out"
        by (auto simp: newtonRaphson_loop.simps [of n p i] bind_exn_Inr_iff Let_def)
      from "1.IH" [OF True refl refl go refl refl this] obtain k where
        "i \<le> k" "k \<le> max n i"
        "map iteration out = map iteration rs @ i # [i + 1..k]"
        by auto
      with True show ?thesis
        by (intro exI [of _ k]) (simp add: upto_rec1)
    qed
  next
    case False
    with "1.prems" show ?thesis
      by (intro exI [of _ "i - 1"]) (simp add: newtonRaphson_loop_done)
  qed
qed

lemma secantMethod_loop_fields:
  "secantMethod_loop n p i x0 x1 rs = Inr out
     \<Longrightarrow> \<exists>k. i - 1 \<le> k \<and> k \<le> max n (i - 1) \<and> map iteration out = map iteration rs @ [i..k]"
proof (induction n p i x0 x1 rs arbitrary: out rule: secantMethod_loop.induct)
  case (1 n p i x0 x1 rs)
  show ?case
  proof (cases "i \<le> n")
    case True
    show ?thesis
    proof (cases "jlt (Math_abs (jsub (f x1) (f x0))) (Fin (1 / 10 ^ 10))")
      case stop: True
      with "1.prems" True
      have "out = rs @ [\<lparr>iteration = i, approximation = x1, relativeError = None\<rparr>]"
        by (simp add: secantMethod_loop_stop)
      with True show ?thesis
        by (intro exI [of _ i]) simp
    next
      case go: False
      with "1.prems" True obtain a r where
        "secantMethod_loop n p (i + 1) x1
           (jsub x1 (jdiv (jmul (f x1) (jsub x1 x0)) (jsub (f x1) (f x0))))
           (rs @ [\<lparr>iteration = i, approximation = a, relativeError = Some r\<rparr>]) = Inr out"
        by (auto simp: secantMethod_loop.simps [of n p i] bind_exn_Inr_iff Let_def)
      from "1.IH" [OF True refl refl go refl refl this] obtain k where
        "i \<le> k" "k \<le> max n i"
        "map iteration out = map iteration rs @ i # [i + 1..k]"
        by auto
      with True show ?thesis
        by (intro exI [of _ k]) (simp add: upto_rec1)
    qed
  next
    case False
    with "1.prems" show ?thesis
      by (intro exI [of _ "i - 1"]) (simp add: secantMethod_loop_done)
  qed
qed

lemma newtonRaphson_part004_loop_fields:
  "newtonRaphson_part004_loop ev md ts e n p i x rs = Inr out
     \<Longrightarrow> \<exists>k. i - 1 \<le> k \<and> k \<le> max n (i - 1) \<and> map iteration out = map iteration rs @ [i..k]"
proof (induction ev md ts e n p i x rs arbitrary: out rule: newtonRaphson_part004_loop.induct)
  case (1 ev md ts e n p i x rs)
  show ?case
  proof (cases "i \<le> n")
    case True
    from "1.prems" True obtain fx fpx where ev: "ev e x = Inr fx"
      and dv: "fPrime_part004 ev md ts e x = Inr fpx"
      by (auto simp: newtonRaphson_part004_loop.simps [of ev md ts e n p i] bind_exn_Inr_iff)
    show ?thesis
    proof (cases "jlt (Math_abs fpx) (Fin (1 / 10 ^ 10))")
      case stop: True
      with "1.prems" True ev dv have "out = rs"
        by (simp add: newtonRaphson_part004_loop_stop)
      with True show ?thesis
        by (intro exI [of _ "i - 1"]) simp
    next
      case go: False
      with "1.prems" True ev dv obtain a r where
        "newtonRaphson_part004_loop ev md ts e n p (i + 1) (jsub x (jdiv fx fpx))
           (rs @ [\<lparr>iteration = i, approximation = a, relativeError = Some r\<rparr>]) = Inr out"
        by (auto simp: newtonRaphson_part004_loop.simps [of ev md ts e n p i] bind_exn_Inr_iff
              Let_def)
      from "1.IH" [OF True go refl refl this] obtain k where
        "i \<le> k" "k \<le> max n i"
        "map iteration out = map iteration rs @ i # [i + 1..k]"
        by auto
      with True show ?thesis
        by (intro exI [of _ k]) (simp add: upto_rec1)
    qed
  next
    case False
    with "1.prems" show ?thesis
      by (intro exI [of _ "i - 1"]) (simp add: newtonRaphson_part004_loop_done)
  qed
qed

lemma secantMethod_part004_loop_fields:
  "secantMethod_part004_loop ev e n p i x0 x1 rs = Inr out
     \<Longrightarrow> \<exists>k. i - 1 \<le> k \<and> k \<le> max n (i - 1) \<and> map iteration out = map iteration rs @ [i..k]"
proof (induction ev e n p i x0 x1 rs arbitrary: out rule: secantMethod_part004_loop.induct)
  case (1 ev e n p i x0 x1 rs)
  show ?case
  proof (cases "i \<le> n")
    case True
    from "1.prems" True obtain fx0 fx1 where e0: "ev e x0 = Inr fx0" and e1: "ev e x1 = Inr fx1"
      by (auto simp: secantMethod_part004_loop.simps [of ev e n p i] bind_exn_Inr_iff)
    show ?thesis
    proof (cases "jlt (Math_abs (jsub fx1 fx0)) (Fin (1 / 10 ^ 10))")
      case stop: True
      with "1.prems" True e0 e1 have "out = rs"
        by (simp add: secantMethod_part004_loop_stop)
      with True show ?thesis
        by (intro exI [of _ "i - 1"]) simp
    next
      case go: False
      with "1.prems" True e0 e1 obtain a r where
        "secantMethod_part004_loop ev e n p (i + 1) x1
           (jsub x1 (jdiv (jmul fx1 (jsub x1 x0)) (jsub fx1 fx0)))
           (rs @ [\<lparr>iteration = i, approximation = a, relativeError = Some r\<rparr>]) = Inr out"
        by (auto simp: secantMethod_part004_loop.simps [of ev e n p i] bind_exn_Inr_iff Let_def)
      from "1.IH" [OF True go refl refl this] obtain k where
        "i \<le> k" "k \<le> max n i"
        "map iteration out = map iteration rs @ i # [i + 1..k]"
        by auto
      with True show ?thesis
        by (intro exI [of _ k]) (simp add: upto_rec1)
    qed
  next
    case False
    with "1.prems" show ?thesis
      by (intro exI [of _ "i - 1"]) (simp add: secantMethod_part004_loop_done)
  qed
qed

text \<open>From the fields to the length: a list numbered \<open>1..k\<close> has \<open>k\<close> elements.\<close>

lemma fields_upto_length:
  assumes "map iteration out = [1..k]" and "0 \<le> k"
  shows "int (length out) = k"
proof -
  have "length out = length [1..k]"
    using assms(1) by (metis length_map)
  with assms(2) show ?thesis by simp
qed

subsection \<open>The loops of \<^verbatim>\<open>math-utils.ts\<close> return when \<^verbatim>\<open>toFixed\<close> accepts the precision\<close>

lemma fixedPointIteration_loop_returns:
  assumes "0 \<le> p" and "p \<le> 100"
  shows "\<exists>out. fixedPointIteration_loop n p i x prev rs = Inr out"
  using assms
proof (induction n p i x prev rs rule: fixedPointIteration_loop.induct)
  case (1 n p i x prev rs)
  show ?case
  proof (cases "i \<le> n")
    case True
    from "1.prems" obtain a where a: "parseFloat_toFixed (G x) p = Inr a"
      using parseFloat_toFixed_returns by meson
    from "1.prems" obtain r where r: "parseFloat_toFixed (relErr (G x) x) p = Inr r"
      using parseFloat_toFixed_returns by meson
    note IH = "1.IH" [OF True refl refl "1.prems"]
    show ?thesis
    proof (cases prev)
      case None
      then show ?thesis
        using fixedPointIteration_loop_first [OF True a] IH by simp
    next
      case (Some y)
      then show ?thesis
        using fixedPointIteration_loop_later [OF True a r] IH by simp
    qed
  next
    case False
    then show ?thesis
      by (simp add: fixedPointIteration_loop_done)
  qed
qed

lemma newtonRaphson_loop_returns:
  assumes "0 \<le> p" and "p \<le> 100"
  shows "\<exists>out. newtonRaphson_loop n p i x rs = Inr out"
  using assms
proof (induction n p i x rs rule: newtonRaphson_loop.induct)
  case (1 n p i x rs)
  show ?case
  proof (cases "i \<le> n")
    case True
    show ?thesis
    proof (cases "jlt (Math_abs (fPrime x)) (Fin (1 / 10 ^ 10))")
      case stop: True
      with True show ?thesis
        by (simp add: newtonRaphson_loop_stop)
    next
      case go: False
      from "1.prems" obtain a r where
        "parseFloat_toFixed (jsub x (jdiv (f x) (fPrime x))) p = Inr a"
        "parseFloat_toFixed (relErr (jsub x (jdiv (f x) (fPrime x))) x) p = Inr r"
        using parseFloat_toFixed_returns by meson
      with True go "1.IH" [OF True refl refl go refl refl "1.prems"] show ?thesis
        by (simp add: newtonRaphson_loop_step)
    qed
  next
    case False
    then show ?thesis
      by (simp add: newtonRaphson_loop_done)
  qed
qed

lemma secantMethod_loop_returns:
  assumes "0 \<le> p" and "p \<le> 100"
  shows "\<exists>out. secantMethod_loop n p i x0 x1 rs = Inr out"
  using assms
proof (induction n p i x0 x1 rs rule: secantMethod_loop.induct)
  case (1 n p i x0 x1 rs)
  show ?case
  proof (cases "i \<le> n")
    case True
    show ?thesis
    proof (cases "jlt (Math_abs (jsub (f x1) (f x0))) (Fin (1 / 10 ^ 10))")
      case stop: True
      with True show ?thesis
        by (simp add: secantMethod_loop_stop)
    next
      case go: False
      define nextX where "nextX = jsub x1 (jdiv (jmul (f x1) (jsub x1 x0)) (jsub (f x1) (f x0)))"
      from "1.prems" obtain a r where
        "parseFloat_toFixed nextX p = Inr a"
        "parseFloat_toFixed (relErr nextX x1) p = Inr r"
        using parseFloat_toFixed_returns by meson
      with True go "1.IH" [OF True refl refl go refl refl "1.prems"] show ?thesis
        by (simp add: secantMethod_loop_step [OF True go nextX_def] nextX_def)
    qed
  next
    case False
    then show ?thesis
      by (simp add: secantMethod_loop_done)
  qed
qed

subsection \<open>Which records carry an error\<close>


lemma newtonRaphson_loop_errors:
  "newtonRaphson_loop n p i x rs = Inr out
     \<Longrightarrow> \<exists>new. out = rs @ new \<and> (\<forall>r \<in> set (butlast new). relativeError r \<noteq> None)"
proof (induction n p i x rs arbitrary: out rule: newtonRaphson_loop.induct)
  case (1 n p i x rs)
  show ?case
  proof (cases "i \<le> n")
    case True
    show ?thesis
    proof (cases "jlt (Math_abs (fPrime x)) (Fin (1 / 10 ^ 10))")
      case stop: True
      with "1.prems" True
      have "out = rs @ [\<lparr>iteration = i, approximation = x, relativeError = None\<rparr>]"
        by (simp add: newtonRaphson_loop_stop)
      then show ?thesis
        by (intro exI [of _ "[\<lparr>iteration = i, approximation = x, relativeError = None\<rparr>]"])
           simp
    next
      case go: False
      with "1.prems" True obtain a r where
        "newtonRaphson_loop n p (i + 1) (jsub x (jdiv (f x) (fPrime x)))
           (rs @ [\<lparr>iteration = i, approximation = a, relativeError = Some r\<rparr>]) = Inr out"
        by (auto simp: newtonRaphson_loop.simps [of n p i] bind_exn_Inr_iff Let_def)
      from "1.IH" [OF True refl refl go refl refl this] obtain new where
        "out = (rs @ [\<lparr>iteration = i, approximation = a, relativeError = Some r\<rparr>]) @ new"
        "\<forall>r \<in> set (butlast new). relativeError r \<noteq> None"
        by auto
      then show ?thesis
        by (intro exI [of _ "\<lparr>iteration = i, approximation = a, relativeError = Some r\<rparr> # new"])
           simp
    qed
  next
    case False
    with "1.prems" show ?thesis
      by (simp add: newtonRaphson_loop_done)
  qed
qed

subsection \<open>An exception of the evaluator ends \<^verbatim>\<open>fixedPointIteration\<close> of \<^verbatim>\<open>part_004\<close>\<close>

lemma fixedPointIteration_part004_loop_propagates:
  assumes "0 \<le> p" and "p \<le> 100"
  shows "fixed_point_iterate ev g (Suc k) x = Inl e \<Longrightarrow> i + int k \<le> n
     \<Longrightarrow> fixedPointIteration_part004_loop ev g n p i x prev rs = Inl e"
proof (induction k arbitrary: i x prev rs)
  case 0
  then show ?case
    by (cases "ev g x") (simp_all add: fixedPointIteration_part004_loop_throws)
next
  case (Suc k)
  from Suc.prems(2) have le: "i \<le> n" by simp
  show ?case
  proof (cases "ev g x")
    case (Inl e')
    with Suc.prems(1) have "e' = e" by simp
    with Inl le show ?thesis
      by (simp add: fixedPointIteration_part004_loop_throws)
  next
    case (Inr nextX)
    with Suc.prems(1) have next_fails: "fixed_point_iterate ev g (Suc k) nextX = Inl e"
      by simp
    from assms obtain a where a: "parseFloat_toFixed nextX p = Inr a"
      using parseFloat_toFixed_returns by meson
    from assms obtain r where r: "parseFloat_toFixed (relErr nextX x) p = Inr r"
      using parseFloat_toFixed_returns by meson
    from Suc.prems(2) have "i + 1 + int k \<le> n" by simp
    note IH = Suc.IH [OF next_fails this]
    show ?thesis
    proof (cases prev)
      case None
      then show ?thesis
        using fixedPointIteration_part004_loop_first [where ev = ev and g = g and x = x, OF le Inr a] IH
        by simp
    next
      case (Some y)
      then show ?thesis
        using fixedPointIteration_part004_loop_later [where ev = ev and g = g and x = x, OF le Inr a r]
          IH
        by simp
    qed
  qed
qed

subsection \<open>Arithmetic of the number model\<close>

lemma Math_abs_jdiv: "Math_abs (jdiv a b) = jdiv (Math_abs a) (Math_abs b)"
  by (cases a; cases b) (auto simp: abs_if field_simps)

lemma relErr_as_quotient:
  "relErr nextX x = jmul (jdiv (Math_abs (jsub nextX x)) (Math_abs nextX)) (Fin 100)"
  by (simp add: relErr_def Math_abs_jdiv)

lemma round_half_away_decimals:
  "of_int \<lfloor>round_half_away p a * 10 ^ p\<rfloor> = round_half_away p a * 10 ^ p"
proof -
  have "round_half_away p a * 10 ^ p = sgn a * of_int \<lfloor>\<bar>a\<bar> * 10 ^ p + 1 / 2\<rfloor>"
    by (simp add: round_half_away_def)
  also have "\<dots> = of_int (sgn \<lfloor>a\<rfloor> * \<lfloor>\<bar>a\<bar> * 10 ^ p + 1 / 2\<rfloor>) \<or> \<dots> = of_int \<lfloor>\<bar>a\<bar> * 10 ^ p + 1 / 2\<rfloor>
      \<or> \<dots> = of_int (- \<lfloor>\<bar>a\<bar> * 10 ^ p + 1 / 2\<rfloor>) \<or> \<dots> = of_int 0"
    by (auto simp: sgn_if)
  finally have "round_half_away p a * 10 ^ p \<in> \<int>"
    by (metis Ints_of_int)
  then show ?thesis
    by (auto simp: Ints_def)
qed

lemma parseFloat_toFixed_decimals:
  assumes "parseFloat_toFixed (Fin a) p = Inr b" and "\<bar>a\<bar> < 10 ^ 21"
  shows "decimals_at_most (nat p) b"
  using assms
  by (auto simp: parseFloat_toFixed_def round_half_away_decimals split: if_splits)

subsection \<open>The loops against the specification's recursions\<close>

lemma parseFloat_toFixed_rounded:
  "0 \<le> p \<Longrightarrow> p \<le> 100 \<Longrightarrow> parseFloat_toFixed v p = Inr (rounded p v)"
  by (simp add: parseFloat_toFixed_def rounded_def)

lemma relErr_relative_error_percent: "relErr a b = relative_error_percent a b"
  by (simp add: relErr_as_quotient relative_error_percent_def)

lemma remaining_passes: "i \<le> n \<Longrightarrow> nat (n + 1 - i) = Suc (nat (n + 1 - (i + 1)))"
  by simp

lemma newtonRaphson_part004_loop_spec:
  "newtonRaphson_part004_loop ev md ts e n p i x rs =
     (case Newton_Raphson_spec (ev e) (symbolic_derivative_at ev md ts e) p (nat (n + 1 - i)) i x
      of Inl error \<Rightarrow> Inl error | Inr out \<Rightarrow> Inr (rs @ out))"
proof (induction ev md ts e n p i x rs rule: newtonRaphson_part004_loop.induct)
  case (1 ev md ts e n p i x rs)
  show ?case
  proof (cases "i \<le> n")
    case False
    then show ?thesis
      by (simp add: newtonRaphson_part004_loop_done)
  next
    case True
    note more = remaining_passes [OF True]
    have dv: "fPrime_part004 ev md ts e x = symbolic_derivative_at ev md ts e x"
      by (simp add: fPrime_part004_def symbolic_derivative_at_def bind_exn_def)
    show ?thesis
    proof (cases "ev e x")
      case (Inl err)
      with True show ?thesis
        by (simp add: newtonRaphson_part004_loop.simps [of ev md ts e n p i] more)
    next
      case fx: (Inr fx)
      show ?thesis
      proof (cases "symbolic_derivative_at ev md ts e x")
        case (Inl err)
        with True fx dv show ?thesis
          by (simp add: newtonRaphson_part004_loop.simps [of ev md ts e n p i] more)
      next
        case fpx: (Inr fpx)
        show ?thesis
        proof (cases "near_zero fpx")
          case stop: True
          with True fx fpx dv show ?thesis
            by (simp add: newtonRaphson_part004_loop.simps [of ev md ts e n p i] more
                  near_zero_def)
        next
          case go: False
          then have go': "\<not> jlt (Math_abs fpx) (Fin (1 / 10 ^ 10))"
            by (simp add: near_zero_def)
          show ?thesis
          proof (cases "parseFloat_toFixed (jsub x (jdiv fx fpx)) p")
            case (Inl err)
            with True fx fpx dv go show ?thesis
              by (simp add: newtonRaphson_part004_loop.simps [of ev md ts e n p i] more
                    near_zero_def Let_def)
          next
            case a: (Inr a)
            show ?thesis
            proof (cases "parseFloat_toFixed
                            (relative_error_percent (jsub x (jdiv fx fpx)) x) p")
              case (Inl err)
              with True fx fpx dv go a show ?thesis
                by (simp add: newtonRaphson_part004_loop.simps [of ev md ts e n p i] more
                      near_zero_def Let_def relErr_relative_error_percent)
            next
              case r: (Inr r)
              have a': "parseFloat_toFixed (jsub x (jdiv fx fpx)) p = Inr a"
                by (fact a)
              have r': "parseFloat_toFixed (relErr (jsub x (jdiv fx fpx)) x) p = Inr r"
                using r by (simp add: relErr_relative_error_percent)
              have dv': "fPrime_part004 ev md ts e x = Inr fpx"
                using dv fpx by simp
              note step = newtonRaphson_part004_loop_step
                [where ev = ev and e = e and x = x and rs = rs, OF True fx dv' go' a' r']
              note IH = "1.IH" [OF True go' refl refl, of fx a r]
              show ?thesis
                using fx fpx go a r
                by (simp add: step IH more split: sum.splits)
            qed
          qed
        qed
      qed
    qed
  qed
qed

lemma newtonRaphson_loop_records:
  assumes "0 \<le> p" and "p \<le> 100"
  shows "newtonRaphson_loop n p i x rs =
         Inr (rs @ newtonRaphson_records p (nat (n + 1 - i)) i x)"
  using assms
proof (induction n p i x rs rule: newtonRaphson_loop.induct)
  case (1 n p i x rs)
  show ?case
  proof (cases "i \<le> n")
    case False
    then show ?thesis
      by (simp add: newtonRaphson_loop_done)
  next
    case True
    note more = remaining_passes [OF True]
    show ?thesis
    proof (cases "near_zero (fPrime x)")
      case stop: True
      then have "jlt (Math_abs (fPrime x)) (Fin (1 / 10 ^ 10))"
        by (simp add: near_zero_def)
      from newtonRaphson_loop_stop [OF True this] stop show ?thesis
        by (simp add: more)
    next
      case go: False
      then have go': "\<not> jlt (Math_abs (fPrime x)) (Fin (1 / 10 ^ 10))"
        by (simp add: near_zero_def)
      have a: "parseFloat_toFixed (jsub x (jdiv (f x) (fPrime x))) p =
               Inr (rounded p (newton_next x))"
        using "1.prems" by (simp add: parseFloat_toFixed_rounded newton_next_def)
      have r: "parseFloat_toFixed (relErr (jsub x (jdiv (f x) (fPrime x))) x) p =
               Inr (rounded p (relative_error_percent (newton_next x) x))"
        using "1.prems"
        by (simp add: parseFloat_toFixed_rounded newton_next_def relErr_relative_error_percent)
      note step = newtonRaphson_loop_step [OF True go' a r]
      note IH = "1.IH" [OF True refl refl go' refl refl "1.prems"]
      show ?thesis
        using go by (simp add: step IH more newton_next_def)
    qed
  qed
qed


subsection \<open>The records by their position\<close>

lemma newtonRaphson_records_length: "length (newtonRaphson_records p m k x) \<le> m"
  by (induction m arbitrary: k x) auto







section \<open>Properties of the specification\<close>

subsection \<open>Newton-Raphson: the derivative and the next iterate\<close>

text \<open>
  Claim C1, as the specification has it: for every expression \<open>f\<close>, initial guess, iteration
  count and precision, \<^verbatim>\<open>newtonRaphson\<close> obtains \<open>f'(x)\<close> at each step by differentiating the
  given expression symbolically and evaluating the derivative at the current \<open>x\<close>, and the
  next iterate is \<open>x - f(x)/f'(x)\<close>.

  That does not hold of \<^verbatim>\<open>newtonRaphson\<close> in \<^verbatim>\<open>math-utils.ts\<close>, which has no expression among
  its parameters and differentiates nothing: \<open>f\<close> and \<open>f'\<close> are written into it. For the
  expression \<open>x^2\<close> and the guess \<open>1\<close> the step of the claim is \<open>1 - 1/2 = 0.5\<close>, which
  \<^verbatim>\<open>part_004\<close> records; started at the same guess, \<^verbatim>\<open>math-utils.ts\<close> records \<open>2\<close>, the step
  for \<open>ln x - 1\<close>.
\<close>

theorem newtonRaphson_built_in_function:
  "newtonRaphson (Fin 1) 1 (Fin 0) 2 =
     Inr [\<lparr>iteration = 1, approximation = Fin 2, relativeError = Some (Fin 50)\<rparr>]
   \<and> demo_evaluate ''x^2'' (Fin 1) = Inr (Fin 1)
   \<and> symbolic_derivative_at demo_evaluate demo_derivative demo_toString ''x^2'' (Fin 1)
       = Inr (Fin 2)
   \<and> jsub (Fin 1) (jdiv (Fin 1) (Fin 2)) = Fin (1 / 2)
   \<and> newtonRaphson_part004 demo_evaluate demo_derivative demo_toString ''x^2'' (Fin 1) 1 2 =
     Inr [\<lparr>iteration = 1, approximation = Fin (1 / 2), relativeError = Some (Fin 100)\<rparr>]"
  by (simp add: newtonRaphson_def newtonRaphson_part004_def newtonRaphson_loop.simps
        newtonRaphson_part004_loop.simps fPrime_part004_def symbolic_derivative_at_def
        demo_evaluate_def demo_derivative_def demo_toString_def f_def fPrime_def jsub_def
        relErr_def parseFloat_toFixed_def round_half_away_def Let_def)

text \<open>
  Claim C1, amended. In \<^verbatim>\<open>part_004\<close>, for every expression, initial guess, iteration count
  and precision, \<^verbatim>\<open>newtonRaphson\<close> obtains \<open>f'(x)\<close> at each step by differentiating the given
  expression symbolically and evaluating the derivative at the current \<open>x\<close>, and the next
  iterate is \<open>x - f(x)/f'(x)\<close>. In \<^verbatim>\<open>math-utils.ts\<close>, \<^verbatim>\<open>newtonRaphson\<close> takes no expression
  and differentiates nothing: it makes the same step with its built-in \<open>f(x) = ln x - 1\<close>
  and \<open>f'(x) = 1/x\<close>.

  For whatever mathjs does, the function of \<^verbatim>\<open>part_004\<close> returns, or throws, exactly what
  \<open>Newton_Raphson_spec\<close> does for the value of the expression and the value of its
  symbolic derivative. In particular, when the first pass finds \<open>fx\<close> and a derivative
  \<open>fpx\<close> that is not near zero, the first record holds the rounded \<open>x - fx/fpx\<close> and the
  later records are those of the remaining passes from the unrounded \<open>x - fx/fpx\<close>. The
  function of \<^verbatim>\<open>math-utils.ts\<close> returns \<open>newtonRaphson_records\<close>, the same recursion on
  \<open>newton_next\<close>, closed by one more record when a derivative is near zero.
\<close>

theorem newtonRaphson_refines_specification:
  "newtonRaphson_part004 evaluate mathDerivative toString expression x n p =
     Newton_Raphson_spec (evaluate expression)
       (symbolic_derivative_at evaluate mathDerivative toString expression) p (nat n) 1 x
   \<and> (1 \<le> n \<and> evaluate expression x = Inr fx \<and> mathDerivative expression ''x'' = Inr node
       \<and> evaluate (toString node) x = Inr fpx \<and> \<not> near_zero fpx \<and> 0 \<le> p \<and> p \<le> 100
    \<longrightarrow> newtonRaphson_part004 evaluate mathDerivative toString expression x n p =
        (case Newton_Raphson_spec (evaluate expression)
                (symbolic_derivative_at evaluate mathDerivative toString expression) p
                (nat (n - 1)) 2 (jsub x (jdiv fx fpx)) of
           Inl error \<Rightarrow> Inl error
         | Inr later \<Rightarrow>
             Inr (\<lparr>iteration = 1, approximation = rounded p (jsub x (jdiv fx fpx)),
                    relativeError =
                      Some (rounded p (relative_error_percent (jsub x (jdiv fx fpx)) x))\<rparr>
                  # later)))
   \<and> (0 \<le> p \<and> p \<le> 100
    \<longrightarrow> newtonRaphson y n tv p = Inr (newtonRaphson_records p (nat n) 1 y))"
proof (intro conjI impI)
  have whole: "newtonRaphson_part004 ev md ts e x n p =
      Newton_Raphson_spec (ev e) (symbolic_derivative_at ev md ts e) p (nat n) 1 x"
    for ev :: "string \<Rightarrow> jsnum \<Rightarrow> js_exn + jsnum"
      and md :: "string \<Rightarrow> string \<Rightarrow> js_exn + 'a" and ts e
    using newtonRaphson_part004_loop_spec [of ev md ts e n p 1 x "[]"]
    by (cases "Newton_Raphson_spec (ev e) (symbolic_derivative_at ev md ts e) p (nat n) 1 x")
       (simp_all add: newtonRaphson_part004_def)
  show "newtonRaphson_part004 evaluate mathDerivative toString expression x n p =
     Newton_Raphson_spec (evaluate expression)
       (symbolic_derivative_at evaluate mathDerivative toString expression) p (nat n) 1 x"
    by (fact whole)
  {
    assume h: "1 \<le> n \<and> evaluate expression x = Inr fx
       \<and> mathDerivative expression ''x'' = Inr node
       \<and> evaluate (toString node) x = Inr fpx \<and> \<not> near_zero fpx \<and> 0 \<le> p \<and> p \<le> 100"
    then have "1 \<le> n"
      by simp
    then have n: "nat n = Suc (nat (n - 1))"
      by arith
    from h have dv: "symbolic_derivative_at evaluate mathDerivative toString expression x
        = Inr fpx"
      by (simp add: symbolic_derivative_at_def)
    from h dv show "newtonRaphson_part004 evaluate mathDerivative toString expression x n p =
        (case Newton_Raphson_spec (evaluate expression)
                (symbolic_derivative_at evaluate mathDerivative toString expression) p
                (nat (n - 1)) 2 (jsub x (jdiv fx fpx)) of
           Inl error \<Rightarrow> Inl error
         | Inr later \<Rightarrow>
             Inr (\<lparr>iteration = 1, approximation = rounded p (jsub x (jdiv fx fpx)),
                    relativeError =
                      Some (rounded p (relative_error_percent (jsub x (jdiv fx fpx)) x))\<rparr>
                  # later))"
      by (simp add: whole n parseFloat_toFixed_rounded)
  }
  {
    assume "0 \<le> p \<and> p \<le> 100"
    then show "newtonRaphson y n tv p = Inr (newtonRaphson_records p (nat n) 1 y)"
      using newtonRaphson_loop_records [of p n 1 y "[]"]
      by (simp add: newtonRaphson_def)
  }
qed

theorem newtonRaphson_refines_specification_witness:
  "newtonRaphson_part004 demo_evaluate demo_derivative demo_toString ''x^2'' (Fin 1) 3 2 =
     Inr [\<lparr>iteration = 1, approximation = Fin (1 / 2), relativeError = Some (Fin 100)\<rparr>,
          \<lparr>iteration = 2, approximation = Fin (1 / 4), relativeError = Some (Fin 100)\<rparr>,
          \<lparr>iteration = 3, approximation = Fin (13 / 100), relativeError = Some (Fin 100)\<rparr>]
   \<and> newtonRaphson_part004 demo_evaluate demo_derivative demo_toString ''y'' (Fin 1) 3 2 =
     Inl (Error ''Undefined symbol y'')
   \<and> newtonRaphson (Fin 1) 1 (Fin 0) 2 =
     Inr [\<lparr>iteration = 1, approximation = Fin 2, relativeError = Some (Fin 50)\<rparr>]"
  using newtonRaphson_refines_specification
    [where evaluate = demo_evaluate and mathDerivative = demo_derivative
       and toString = demo_toString and expression = "''x^2''" and x = "Fin 1" and n = 3
       and p = 2 and fx = "Fin 1" and node = "''2 * x''" and fpx = "Fin 2"]
    newtonRaphson_refines_specification
    [where evaluate = demo_evaluate and mathDerivative = demo_derivative
       and toString = demo_toString and expression = "''y''" and x = "Fin 1" and n = 3
       and p = 2 and y = "Fin 1" and tv = "Fin 0"]
    newtonRaphson_refines_specification
    [where n = 1 and p = 2 and y = "Fin 1" and tv = "Fin 0" and evaluate = demo_evaluate
       and mathDerivative = demo_derivative and toString = demo_toString
       and expression = "''y''" and x = "Fin 1"]
  by (simp add: eval_nat_numeral symbolic_derivative_at_def near_zero_def
        relative_error_percent_def rounded_def newton_next_def demo_evaluate_def
        demo_derivative_def demo_toString_def f_def fPrime_def jsub_def
        parseFloat_toFixed_def round_half_away_def)

subsection \<open>Stopping on a degenerate step\<close>

text \<open>
  Claim C3. When \<open>|f'(x)| < 1e-10\<close> at some pass, \<^verbatim>\<open>newtonRaphson\<close> stops at once and returns
  the records made so far as an ordinary result; \<^verbatim>\<open>secantMethod\<close> does the same when
  \<open>|f(x1) - f(x0)| < 1e-10\<close>; nothing is thrown.

  Whatever the pass \<open>i\<close>, the records \<open>rs\<close> made before it and the precision: in
  \<^verbatim>\<open>math-utils.ts\<close> the loop returns \<open>rs\<close> followed by one closing record for the pass, which
  holds the current \<open>x\<close> and no error; in \<^verbatim>\<open>part_004\<close> it returns \<open>rs\<close> as it is. Either
  way the result is a returned list, \<open>Inr\<close>, not an exception.
\<close>

theorem degenerate_step_returns:
  "(i \<le> n \<and> jlt (Math_abs (fPrime x)) (Fin (1 / 10 ^ 10))
    \<longrightarrow> newtonRaphson_loop n p i x rs =
        Inr (rs @ [\<lparr>iteration = i, approximation = x, relativeError = None\<rparr>]))
   \<and> (i \<le> n \<and> jlt (Math_abs (jsub (f xb) (f xa))) (Fin (1 / 10 ^ 10))
    \<longrightarrow> secantMethod_loop n p i xa xb rs =
        Inr (rs @ [\<lparr>iteration = i, approximation = xb, relativeError = None\<rparr>]))
   \<and> (i \<le> n \<and> evaluate expression x = Inr fx
      \<and> fPrime_part004 evaluate mathDerivative toString expression x = Inr fpx
      \<and> jlt (Math_abs fpx) (Fin (1 / 10 ^ 10))
    \<longrightarrow> newtonRaphson_part004_loop evaluate mathDerivative toString expression n p i x rs
        = Inr rs)
   \<and> (i \<le> n \<and> evaluate expression xa = Inr fxa \<and> evaluate expression xb = Inr fxb
      \<and> jlt (Math_abs (jsub fxb fxa)) (Fin (1 / 10 ^ 10))
    \<longrightarrow> secantMethod_part004_loop evaluate expression n p i xa xb rs = Inr rs)"
  by (simp add: newtonRaphson_loop_stop secantMethod_loop_stop newtonRaphson_part004_loop_stop
        secantMethod_part004_loop_stop)

theorem degenerate_step_returns_witness:
  "newtonRaphson (Fin (10 ^ 11)) 3 (Fin 0) 6 =
     Inr [\<lparr>iteration = 1, approximation = Fin (10 ^ 11), relativeError = None\<rparr>]
   \<and> secantMethod (Fin 2) (Fin 2) 3 (Fin 0) 6 =
     Inr [\<lparr>iteration = 1, approximation = Fin 2, relativeError = None\<rparr>]
   \<and> newtonRaphson_part004 demo_evaluate demo_derivative demo_toString ''x^2'' (Fin 0) 3 6 = Inr []
   \<and> secantMethod_part004 demo_evaluate ''x^2'' (Fin 1) (Fin 1) 3 6 = Inr []"
  using degenerate_step_returns
    [where i = 1 and n = 3 and p = 6 and rs = "[]" and x = "Fin (10 ^ 11)" and xa = "Fin 2"
       and xb = "Fin 2" and evaluate = "\<lambda>e v. Inl NonError" and expression = "''''"]
    degenerate_step_returns
    [where i = 1 and n = 3 and p = 6 and rs = "[]" and x = "Fin 0" and xa = "Fin 1"
       and xb = "Fin 1" and evaluate = demo_evaluate and expression = "''x^2''"
       and mathDerivative = demo_derivative and toString = demo_toString
       and fx = "Fin 0" and fpx = "Fin 0" and fxa = "Fin 1" and fxb = "Fin 1"]
  by (simp add: newtonRaphson_def secantMethod_def newtonRaphson_part004_def
        secantMethod_part004_def fPrime_part004_def demo_evaluate_def demo_derivative_def
        demo_toString_def f_def fPrime_def jsub_def)

subsection \<open>The parameter \<open>targetValue\<close>\<close>

text \<open>
  Claim C9. The three root finders of \<^verbatim>\<open>math-utils.ts\<close> have their target function written in,
  \<open>G(x) = x - ln(x) + 1\<close>, \<open>f(x) = ln(x) - 1\<close> and \<open>f'(x) = 1/x\<close>, and never read
  \<open>targetValue\<close>: two calls that differ in \<open>targetValue\<close> alone return the same records.
\<close>

theorem targetValue_is_not_read:
  "fixedPointIteration initialGuess iterations targetValue precision =
     fixedPointIteration initialGuess iterations targetValue' precision
   \<and> newtonRaphson initialGuess iterations targetValue precision =
     newtonRaphson initialGuess iterations targetValue' precision
   \<and> secantMethod guessA guessB iterations targetValue precision =
     secantMethod guessA guessB iterations targetValue' precision
   \<and> (0 < t \<longrightarrow> G (Fin t) = Fin (t - ln t + 1) \<and> f (Fin t) = Fin (ln t - 1)
               \<and> fPrime (Fin t) = Fin (1 / t))"
  by (simp add: fixedPointIteration_def newtonRaphson_def secantMethod_def G_def f_def
        fPrime_def jsub_def)

theorem targetValue_is_not_read_witness:
  "fixedPointIteration (Fin 2) 10 (Fin 0) 6 = fixedPointIteration (Fin 2) 10 (Fin 7) 6
   \<and> newtonRaphson (Fin 2) 10 (Fin 0) 6 = newtonRaphson (Fin 2) 10 (Fin 7) 6
   \<and> secantMethod (Fin 2) (Fin 3) 10 (Fin 0) 6 = secantMethod (Fin 2) (Fin 3) 10 (Fin 7) 6
   \<and> G (Fin 1) = Fin 2 \<and> f (Fin 1) = Fin (- 1) \<and> fPrime (Fin 1) = Fin 1"
  using targetValue_is_not_read
    [where initialGuess = "Fin 2" and iterations = 10 and targetValue = "Fin 0"
       and targetValue' = "Fin 7" and precision = 6 and guessA = "Fin 2" and guessB = "Fin 3"
       and t = 1]
  by simp

subsection \<open>\<^verbatim>\<open>approximateDerivative\<close> of \<^verbatim>\<open>math-utils.ts\<close> does not throw\<close>

text \<open>
  Claim C10. For every expression and all numeric arguments \<^verbatim>\<open>approximateDerivative\<close> of
  \<^verbatim>\<open>math-utils.ts\<close> returns, either a complete \<^verbatim>\<open>DerivativeResult\<close> or an object
  \<^verbatim>\<open>{ error: string }\<close>: every call into mathjs is inside \<^verbatim>\<open>safeEvaluate\<close>,
  \<^verbatim>\<open>safeDerivative\<close> or the enclosing \<^verbatim>\<open>try\<close>.

  This holds whatever mathjs does, that is for all values of the three parameters, and
  for a precision that \<^verbatim>\<open>toFixed\<close> rejects as well.
\<close>

theorem approximateDerivative_never_throws:
  "(\<exists>msg. approximateDerivative compile node_evaluate mathDerivative expression guessValue h
             precision = Inr (ErrorObject msg))
   \<or> (\<exists>r. approximateDerivative compile node_evaluate mathDerivative expression guessValue h
             precision = Inr (Result r))"
proof (cases "approximateDerivative_try compile node_evaluate mathDerivative expression
                guessValue h precision")
  case (Inl error)
  then show ?thesis
    by (simp add: approximateDerivative_def approximateDerivative_catch_def)
next
  case (Inr outcome)
  then show ?thesis
    by (cases outcome) (simp_all add: approximateDerivative_def)
qed

theorem approximateDerivative_never_throws_witness:
  "approximateDerivative demo_compile demo_node_evaluate demo_derivative ''x +'' (Fin 1)
     (Fin (1 / 8)) 1 = Inr (ErrorObject ''Syntax error in expression: Unexpected input'')
   \<and> approximateDerivative demo_compile demo_node_evaluate demo_derivative ''x^2'' (Fin 1)
     (Fin (1 / 8)) 1 =
     Inr (Result \<lparr>forward = Fin (21 / 10), backward = Fin (19 / 10), centered = Fin 2,
            forwardError = Some (Fin (63 / 10)), backwardError = Some (Fin (63 / 10)),
            centeredError = Some (Fin 0), symbolic = Some (Fin 2)\<rparr>)"
  using approximateDerivative_never_throws
    [of demo_compile demo_node_evaluate demo_derivative "''x +''" "Fin 1" "Fin (1 / 8)" 1]
    approximateDerivative_never_throws
    [of demo_compile demo_node_evaluate demo_derivative "''x^2''" "Fin 1" "Fin (1 / 8)" 1]
  by (simp add: approximateDerivative_def approximateDerivative_try_def
        approximateDerivative_catch_def demo_compile_def demo_node_evaluate_def
        demo_evaluate_def demo_derivative_def safeEvaluate_def safeDerivative_def
        calculateError_def round_opt_def jsub_def parseFloat_toFixed_def round_half_away_def
        Let_def)

subsection \<open>Length and numbering of the returned records\<close>

text \<open>
  Claim C4. Each of \<^verbatim>\<open>fixedPointIteration\<close>, \<^verbatim>\<open>newtonRaphson\<close> and \<^verbatim>\<open>secantMethod\<close> returns at
  most \<open>iterations\<close> records, whose \<open>iteration\<close> fields are \<open>1, 2, \<dots>, k\<close> for some
  \<open>k \<le> iterations\<close>; for \<^verbatim>\<open>fixedPointIteration\<close>, which has no convergence test, \<open>k\<close> is
  \<open>iterations\<close>.

  Stated for both copies of the three functions, for every list they return; \<open>n\<close> is
  \<open>iterations\<close>. The functions of \<^verbatim>\<open>math-utils.ts\<close> do return a list whenever \<^verbatim>\<open>toFixed\<close>
  accepts the precision; those of \<^verbatim>\<open>part_004\<close> return one unless mathjs throws.
\<close>

theorem iteration_fields_contiguous:
  "0 \<le> n \<longrightarrow>
     (fixedPointIteration x n tv p = Inr rsA
        \<longrightarrow> int (length rsA) = n \<and> map iteration rsA = [1..n])
   \<and> (fixedPointIteration_part004 ev e x n p = Inr rsB
        \<longrightarrow> int (length rsB) = n \<and> map iteration rsB = [1..n])
   \<and> (newtonRaphson x n tv p = Inr rsC
        \<longrightarrow> int (length rsC) \<le> n \<and> map iteration rsC = [1..int (length rsC)])
   \<and> (newtonRaphson_part004 ev md ts e x n p = Inr rsD
        \<longrightarrow> int (length rsD) \<le> n \<and> map iteration rsD = [1..int (length rsD)])
   \<and> (secantMethod xa xb n tv p = Inr rsE
        \<longrightarrow> int (length rsE) \<le> n \<and> map iteration rsE = [1..int (length rsE)])
   \<and> (secantMethod_part004 ev e xa xb n p = Inr rsF
        \<longrightarrow> int (length rsF) \<le> n \<and> map iteration rsF = [1..int (length rsF)])
   \<and> (0 \<le> p \<and> p \<le> 100
        \<longrightarrow> (\<exists>rs. fixedPointIteration x n tv p = Inr rs)
          \<and> (\<exists>rs. newtonRaphson x n tv p = Inr rs)
          \<and> (\<exists>rs. secantMethod xa xb n tv p = Inr rs))"
proof (intro impI conjI)
  assume n: "0 \<le> n"
  have run: "int (length out) \<le> n \<and> map iteration out = [1..int (length out)]"
    if "\<exists>k. 1 - 1 \<le> k \<and> k \<le> max n (1 - 1) \<and> map iteration out = map iteration [] @ [1..k]"
    for out :: "IterationResult list"
  proof -
    from that n obtain k where k: "0 \<le> k" "k \<le> n" "map iteration out = [1..k]"
      by auto
    from fields_upto_length [OF k(3) k(1)] k show ?thesis
      by simp
  qed
  {
    assume "fixedPointIteration x n tv p = Inr rsA"
    then have m: "map iteration rsA = [1..n]"
      using fixedPointIteration_loop_fields [of n p 1 x None "[]" rsA]
      by (simp add: fixedPointIteration_def)
    from fields_upto_length [OF m n] show "int (length rsA) = n" .
    from m show "map iteration rsA = [1..n]" .
  }
  {
    assume "fixedPointIteration_part004 ev e x n p = Inr rsB"
    then have m: "map iteration rsB = [1..n]"
      using fixedPointIteration_part004_loop_fields [of ev e n p 1 x None "[]" rsB]
      by (simp add: fixedPointIteration_part004_def)
    from fields_upto_length [OF m n] show "int (length rsB) = n" .
    from m show "map iteration rsB = [1..n]" .
  }
  {
    assume "newtonRaphson x n tv p = Inr rsC"
    then have "newtonRaphson_loop n p 1 x [] = Inr rsC"
      by (simp add: newtonRaphson_def)
    from run [OF newtonRaphson_loop_fields [OF this]]
    have "int (length rsC) \<le> n \<and> map iteration rsC = [1..int (length rsC)]" .
    then show "int (length rsC) \<le> n" and "map iteration rsC = [1..int (length rsC)]"
      by simp_all
  }
  {
    assume "newtonRaphson_part004 ev md ts e x n p = Inr rsD"
    then have "newtonRaphson_part004_loop ev md ts e n p 1 x [] = Inr rsD"
      by (simp add: newtonRaphson_part004_def)
    from run [OF newtonRaphson_part004_loop_fields [OF this]]
    have "int (length rsD) \<le> n \<and> map iteration rsD = [1..int (length rsD)]" .
    then show "int (length rsD) \<le> n" and "map iteration rsD = [1..int (length rsD)]"
      by simp_all
  }
  {
    assume "secantMethod xa xb n tv p = Inr rsE"
    then have "secantMethod_loop n p 1 xa xb [] = Inr rsE"
      by (simp add: secantMethod_def)
    from run [OF secantMethod_loop_fields [OF this]]
    have "int (length rsE) \<le> n \<and> map iteration rsE = [1..int (length rsE)]" .
    then show "int (length rsE) \<le> n" and "map iteration rsE = [1..int (length rsE)]"
      by simp_all
  }
  {
    assume "secantMethod_part004 ev e xa xb n p = Inr rsF"
    then have "secantMethod_part004_loop ev e n p 1 xa xb [] = Inr rsF"
      by (simp add: secantMethod_part004_def)
    from run [OF secantMethod_part004_loop_fields [OF this]]
    have "int (length rsF) \<le> n \<and> map iteration rsF = [1..int (length rsF)]" .
    then show "int (length rsF) \<le> n" and "map iteration rsF = [1..int (length rsF)]"
      by simp_all
  }
  {
    assume p: "0 \<le> p \<and> p \<le> 100"
    then show "\<exists>rs. fixedPointIteration x n tv p = Inr rs"
      by (simp add: fixedPointIteration_def fixedPointIteration_loop_returns)
    from p show "\<exists>rs. newtonRaphson x n tv p = Inr rs"
      by (simp add: newtonRaphson_def newtonRaphson_loop_returns)
    from p show "\<exists>rs. secantMethod xa xb n tv p = Inr rs"
      by (simp add: secantMethod_def secantMethod_loop_returns)
  }
qed

lemma demo_runs:
  "fixedPointIteration (Fin 1) 1 (Fin 0) 2 =
     Inr [\<lparr>iteration = 1, approximation = Fin 2, relativeError = None\<rparr>]"
  "fixedPointIteration_part004 demo_evaluate ''x^2'' (Fin 1) 1 2 =
     Inr [\<lparr>iteration = 1, approximation = Fin 1, relativeError = None\<rparr>]"
  "newtonRaphson (Fin 1) 1 (Fin 0) 2 =
     Inr [\<lparr>iteration = 1, approximation = Fin 2, relativeError = Some (Fin 50)\<rparr>]"
  "newtonRaphson_part004 demo_evaluate demo_derivative demo_toString ''x^2'' (Fin 1) 1 2 =
     Inr [\<lparr>iteration = 1, approximation = Fin (1 / 2), relativeError = Some (Fin 100)\<rparr>]"
  "secantMethod (Fin 1) (Fin 1) 1 (Fin 0) 2 =
     Inr [\<lparr>iteration = 1, approximation = Fin 1, relativeError = None\<rparr>]"
  "secantMethod_part004 demo_evaluate ''x^2'' (Fin 1) (Fin 2) 1 2 =
     Inr [\<lparr>iteration = 1, approximation = Fin (67 / 100), relativeError = Some (Fin 200)\<rparr>]"
  by (simp_all add: fixedPointIteration_def fixedPointIteration_part004_def newtonRaphson_def
        newtonRaphson_part004_def secantMethod_def secantMethod_part004_def
        fixedPointIteration_loop.simps fixedPointIteration_part004_loop.simps
        newtonRaphson_loop.simps newtonRaphson_part004_loop.simps secantMethod_loop.simps
        secantMethod_part004_loop.simps fPrime_part004_def demo_evaluate_def
        demo_derivative_def demo_toString_def G_def f_def fPrime_def jsub_def relErr_def
        parseFloat_toFixed_def round_half_away_def Let_def)

theorem iteration_fields_contiguous_witness:
  "fixedPointIteration (Fin 1) 1 (Fin 0) 2 =
       Inr [\<lparr>iteration = 1, approximation = Fin 2, relativeError = None\<rparr>]
   \<and> map iteration
       [\<lparr>iteration = 1, approximation = Fin 2, relativeError = None\<rparr>] = [1..1]
   \<and> fixedPointIteration_part004 demo_evaluate ''x^2'' (Fin 1) 1 2 =
       Inr [\<lparr>iteration = 1, approximation = Fin 1, relativeError = None\<rparr>]
   \<and> map iteration
       [\<lparr>iteration = 1, approximation = Fin 1, relativeError = None\<rparr>] = [1..1]
   \<and> newtonRaphson (Fin 1) 1 (Fin 0) 2 =
       Inr [\<lparr>iteration = 1, approximation = Fin 2, relativeError = Some (Fin 50)\<rparr>]
   \<and> map iteration
       [\<lparr>iteration = 1, approximation = Fin 2, relativeError = Some (Fin 50)\<rparr>] = [1..1]
   \<and> newtonRaphson_part004 demo_evaluate demo_derivative demo_toString ''x^2'' (Fin 1) 1 2 =
       Inr [\<lparr>iteration = 1, approximation = Fin (1 / 2), relativeError = Some (Fin 100)\<rparr>]
   \<and> map iteration
       [\<lparr>iteration = 1, approximation = Fin (1 / 2), relativeError = Some (Fin 100)\<rparr>] = [1..1]
   \<and> secantMethod (Fin 1) (Fin 1) 1 (Fin 0) 2 =
       Inr [\<lparr>iteration = 1, approximation = Fin 1, relativeError = None\<rparr>]
   \<and> map iteration
       [\<lparr>iteration = 1, approximation = Fin 1, relativeError = None\<rparr>] = [1..1]
   \<and> secantMethod_part004 demo_evaluate ''x^2'' (Fin 1) (Fin 2) 1 2 =
       Inr [\<lparr>iteration = 1, approximation = Fin (67 / 100), relativeError = Some (Fin 200)\<rparr>]
   \<and> map iteration
       [\<lparr>iteration = 1, approximation = Fin (67 / 100), relativeError = Some (Fin 200)\<rparr>] = [1..1]"
  using iteration_fields_contiguous
    [where n = 1 and x = "Fin 1" and tv = "Fin 0" and p = 2 and ev = demo_evaluate
       and e = "''x^2''" and md = demo_derivative and ts = demo_toString
       and xa = "Fin 1" and xb = "Fin 1"
       and rsA = "[\<lparr>iteration = 1, approximation = Fin 2, relativeError = None\<rparr>]"
       and rsB = "[\<lparr>iteration = 1, approximation = Fin 1, relativeError = None\<rparr>]"
       and rsC = "[\<lparr>iteration = 1, approximation = Fin 2, relativeError = Some (Fin 50)\<rparr>]"
       and rsD = "[\<lparr>iteration = 1, approximation = Fin (1 / 2), relativeError = Some (Fin 100)\<rparr>]"
       and rsE = "[\<lparr>iteration = 1, approximation = Fin 1, relativeError = None\<rparr>]"]
    iteration_fields_contiguous
    [where n = 1 and p = 2 and ev = demo_evaluate and e = "''x^2''"
       and xa = "Fin 1" and xb = "Fin 2"
       and rsF = "[\<lparr>iteration = 1, approximation = Fin (67 / 100), relativeError = Some (Fin 200)\<rparr>]"]
    demo_runs
  by simp

subsection \<open>Which records have a relative error\<close>





subsection \<open>A failing evaluation in Fixed-Point Iteration\<close>

text \<open>
  Claim C2, as the specification has it: if \<open>g\<close> cannot be evaluated at some iterate, for
  example for the logarithm of a non-positive number, the whole call fails with an error and
  no shortened list of records is returned.

  That does not hold in \<^verbatim>\<open>math-utils.ts\<close>. Its \<open>G\<close> is \<open>x - Math.log(x) + 1\<close>, and
  \<^verbatim>\<open>Math.log\<close> of a negative number is NaN, not an exception: started at \<open>-1\<close>, the call
  returns its two records, both NaN.
\<close>

theorem fixedPointIteration_log_of_negative:
  "Math_log (Fin (- 1)) = NaN \<and> G (Fin (- 1)) = NaN
   \<and> fixedPointIteration (Fin (- 1)) 2 (Fin 0) 2 =
     Inr [\<lparr>iteration = 1, approximation = NaN, relativeError = None\<rparr>,
          \<lparr>iteration = 2, approximation = NaN, relativeError = Some NaN\<rparr>]"
  by (simp add: fixedPointIteration_def fixedPointIteration_loop.simps G_def jsub_def
        relErr_def parseFloat_toFixed_def Let_def)

text \<open>
  Claim C2, amended. In \<^verbatim>\<open>fixedPointIteration\<close> of \<^verbatim>\<open>part_004\<close>, if the evaluator throws at
  one of the iterates \<open>x\<^sub>0, \<dots>, x\<^bsub>n-1\<^esub>\<close> the loop evaluates \<open>g\<close> at, the call ends with
  that exception and returns no list. A value that is NaN or infinite is not a failure: in
  \<^verbatim>\<open>math-utils.ts\<close>, where nothing is evaluated that can throw, the call returns all its
  \<open>n\<close> records from every initial guess. (\<open>p\<close> is a precision \<^verbatim>\<open>toFixed\<close> accepts.)
\<close>

theorem fixedPointIteration_failure_amended:
  "(0 \<le> p \<and> p \<le> 100 \<and> int k < n \<and> fixed_point_iterate evaluate g (Suc k) x = Inl e
    \<longrightarrow> fixedPointIteration_part004 evaluate g x n p = Inl e)
   \<and> (0 \<le> p \<and> p \<le> 100 \<and> 0 \<le> n
    \<longrightarrow> (\<exists>rs. fixedPointIteration y n tv p = Inr rs \<and> int (length rs) = n))"
proof (intro conjI impI)
  assume h: "0 \<le> p \<and> p \<le> 100 \<and> int k < n \<and> fixed_point_iterate evaluate g (Suc k) x = Inl e"
  then have "0 \<le> p" "p \<le> 100" "fixed_point_iterate evaluate g (Suc k) x = Inl e"
    "1 + int k \<le> n"
    by simp_all
  from fixedPointIteration_part004_loop_propagates [OF this]
  show "fixedPointIteration_part004 evaluate g x n p = Inl e"
    by (simp add: fixedPointIteration_part004_def)
next
  assume h: "0 \<le> p \<and> p \<le> 100 \<and> 0 \<le> n"
  then obtain rs where rs: "fixedPointIteration_loop n p 1 y None [] = Inr rs"
    using fixedPointIteration_loop_returns [of p n 1 y None "[]"] by auto
  from fixedPointIteration_loop_fields [OF rs] have "map iteration rs = [1..n]"
    by simp
  from fields_upto_length [OF this] h rs
  show "\<exists>rs. fixedPointIteration y n tv p = Inr rs \<and> int (length rs) = n"
    by (simp add: fixedPointIteration_def)
qed

theorem fixedPointIteration_failure_amended_witness:
  "fixed_point_iterate demo_evaluate ''y'' (Suc 0) (Fin 1) = Inl (Error ''Undefined symbol y'')
   \<and> fixedPointIteration_part004 demo_evaluate ''y'' (Fin 1) 3 6
       = Inl (Error ''Undefined symbol y'')
   \<and> (\<exists>rs. fixedPointIteration (Fin (- 1)) 3 (Fin 0) 6 = Inr rs \<and> int (length rs) = 3)"
  using fixedPointIteration_failure_amended
    [where p = 6 and k = 0 and n = 3 and evaluate = demo_evaluate and g = "''y''"
       and x = "Fin 1" and e = "Error ''Undefined symbol y''" and y = "Fin (- 1)"
       and tv = "Fin 0"]
  by (simp add: demo_evaluate_def)

subsection \<open>What \<^verbatim>\<open>approximateDerivative\<close> of \<^verbatim>\<open>math-utils.ts\<close> guarantees\<close>

text \<open>
  When the expression does not compile, or \<^verbatim>\<open>safeEvaluate\<close> finds no finite number at one of
  the three points, the call answers with an error object. In a result, the symbolic value
  is finite or absent; without it no error field is present, and with it \<^verbatim>\<open>calculateError\<close>
  is the quotient \<open>|approx - s| / |s| * 100\<close> exactly when \<open>|s| \<ge> 1e-10\<close>.
\<close>

lemma approximateDerivative_compile_throws:
  assumes "compile expression = Inl error"
  shows "approximateDerivative compile node_evaluate mathDerivative expression guessValue h
           precision = Inr (approximateDerivative_catch error)"
  using assms by (simp add: approximateDerivative_def approximateDerivative_try_def)

lemma approximateDerivative_point_fails:
  assumes "compile expression = Inr compiledExpr"
    and "safeEvaluate node_evaluate compiledExpr guessValue = None
         \<or> safeEvaluate node_evaluate compiledExpr (jadd guessValue h) = None
         \<or> safeEvaluate node_evaluate compiledExpr (jsub guessValue h) = None"
  shows "\<exists>msg. approximateDerivative compile node_evaluate mathDerivative expression guessValue
                 h precision = Inr (ErrorObject msg)"
  using assms
  by (auto simp: approximateDerivative_def approximateDerivative_try_def Let_def
      split: option.splits)

lemma safeEvaluate_finite: "safeEvaluate node_evaluate node v = Some a \<Longrightarrow> isFinite a"
  by (auto simp: safeEvaluate_def split: sum.splits jsval.splits if_splits)

lemma approximateDerivative_result:
  assumes "approximateDerivative compile node_evaluate mathDerivative expression guessValue h
             precision = Inr (Result r)"
  shows "\<exists>compiledExpr fx fxp fxm sv.
           compile expression = Inr compiledExpr
         \<and> safeEvaluate node_evaluate compiledExpr guessValue = Some fx
         \<and> safeEvaluate node_evaluate compiledExpr (jadd guessValue h) = Some fxp
         \<and> safeEvaluate node_evaluate compiledExpr (jsub guessValue h) = Some fxm
         \<and> sv = (case safeDerivative mathDerivative expression ''x'' of
                   Some node \<Rightarrow> safeEvaluate node_evaluate node guessValue
                 | None \<Rightarrow> None)
         \<and> parseFloat_toFixed (jdiv (jsub fxp fx) h) precision = Inr (forward r)
         \<and> parseFloat_toFixed (jdiv (jsub fx fxm) h) precision = Inr (backward r)
         \<and> parseFloat_toFixed (jdiv (jsub fxp fxm) (jmul (Fin 2) h)) precision
             = Inr (centered r)
         \<and> round_opt (calculateError (jdiv (jsub fxp fx) h) sv) precision
             = Inr (forwardError r)
         \<and> round_opt (calculateError (jdiv (jsub fx fxm) h) sv) precision
             = Inr (backwardError r)
         \<and> round_opt (calculateError (jdiv (jsub fxp fxm) (jmul (Fin 2) h)) sv) precision
             = Inr (centeredError r)
         \<and> round_opt sv precision = Inr (symbolic r)"
proof -
  from assms have body: "approximateDerivative_try compile node_evaluate mathDerivative
      expression guessValue h precision = Inr (Result r)"
    by (auto simp: approximateDerivative_def approximateDerivative_catch_def
        split: sum.splits if_splits)
  then obtain compiledExpr where c: "compile expression = Inr compiledExpr"
    by (auto simp: approximateDerivative_try_def bind_exn_Inr_iff)
  from body c obtain fx fxp fxm where
    pts: "safeEvaluate node_evaluate compiledExpr guessValue = Some fx"
      "safeEvaluate node_evaluate compiledExpr (jadd guessValue h) = Some fxp"
      "safeEvaluate node_evaluate compiledExpr (jsub guessValue h) = Some fxm"
    by (auto simp: approximateDerivative_try_def Let_def split: option.splits)
  from body c pts show ?thesis
    by (auto simp: approximateDerivative_try_def Let_def bind_exn_Inr_iff)
qed

lemma calculateError_finite:
  assumes "isFinite s"
  shows "calculateError approx (Some s) =
         (if jge (Math_abs s) (Fin (1 / 10 ^ 10))
          then Some (jmul (jdiv (Math_abs (jsub approx s)) (Math_abs s)) (Fin 100))
          else None)"
  using assms by (cases s) (simp_all add: calculateError_def Math_abs_jdiv)

lemma round_opt_None: "round_opt v precision = Inr None \<Longrightarrow> v = None"
  by (cases v) (auto simp: round_opt_def bind_exn_Inr_iff)

lemma approximateDerivative_symbolic_null:
  assumes "approximateDerivative compile node_evaluate mathDerivative expression guessValue h
             precision = Inr (Result r)"
    and "symbolic r = None"
  shows "forwardError r = None \<and> backwardError r = None \<and> centeredError r = None"
proof -
  from approximateDerivative_result [OF assms(1)] obtain sv a b c where
    sv: "round_opt sv precision = Inr (symbolic r)"
    and fw: "round_opt (calculateError a sv) precision = Inr (forwardError r)"
    and bw: "round_opt (calculateError b sv) precision = Inr (backwardError r)"
    and ce: "round_opt (calculateError c sv) precision = Inr (centeredError r)"
    by blast
  from sv assms(2) have "sv = None"
    by (simp add: round_opt_None)
  with fw bw ce show ?thesis
    by (simp add: calculateError_def round_opt_def)
qed

subsection \<open>A value of the expression that is not finite\<close>

text \<open>
  Claim C5. If evaluating \<open>f\<close> at \<open>x\<close>, \<open>x + h\<close> or \<open>x - h\<close> fails (a domain error, a parse
  error, or a result that is not finite), \<^verbatim>\<open>approximateDerivative\<close> fails with an error and
  returns no differences that are NaN or infinite.

  \<^verbatim>\<open>math-utils.ts\<close> does so through \<^verbatim>\<open>safeEvaluate\<close>; \<^verbatim>\<open>part_004\<close> has no test of the three
  values. On \<open>1/x\<close> at \<open>x = 0.5\<close> with \<open>h = 0.5\<close> the value at \<open>x - h\<close> is \<open>Infinity\<close>, and
  \<^verbatim>\<open>part_004\<close> returns a result with infinite fields where \<^verbatim>\<open>math-utils.ts\<close> returns the error
  object.
\<close>

theorem approximateDerivative_part004_infinite_value:
  "demo_evaluate ''1/x'' (jsub (Fin (1 / 2)) (Fin (1 / 2))) = Inr PInf
   \<and> approximateDerivative_part004 demo_compile demo_evaluate demo_derivative demo_toString
       demo_evaluate ''1/x'' (Fin (1 / 2)) (Fin (1 / 2)) 2 =
     Inr (Result \<lparr>forward = Fin (- 2), backward = NInf, centered = NInf,
            forwardError = Some (Fin 50), backwardError = Some PInf, centeredError = Some PInf,
            symbolic = Some (Fin (- 4))\<rparr>)
   \<and> approximateDerivative demo_compile demo_node_evaluate demo_derivative ''1/x''
       (Fin (1 / 2)) (Fin (1 / 2)) 2 =
     Inr (ErrorObject
       (''Failed to evaluate expression at necessary points. Check expression syntax ''
        @ ''and ensure it'' @ [CHR 0x27] @ ''s valid for the given x values.''))"
  by (simp add: approximateDerivative_part004_def approximateDerivative_part004_try_def
        approximateDerivative_def approximateDerivative_try_def demo_compile_def
        demo_node_evaluate_def demo_evaluate_def demo_derivative_def demo_toString_def
        safeEvaluate_def calcError_def jsub_def parseFloat_toFixed_def round_half_away_def
        Let_def)

subsection \<open>A symbolic derivative that evaluates to NaN\<close>

text \<open>
  Claim C6. In a result, if \<open>symbolic\<close> is \<^verbatim>\<open>null\<close> the three error fields are \<^verbatim>\<open>null\<close>; an
  error field is \<open>|approx - symbolic| / |symbolic| * 100\<close>, computed only when
  \<open>|symbolic| \<ge> 1e-10\<close>, and \<^verbatim>\<open>null\<close> otherwise.

  \<^verbatim>\<open>math-utils.ts\<close> passes the value of the derivative through \<^verbatim>\<open>safeEvaluate\<close>, so a NaN
  becomes \<^verbatim>\<open>null\<close>. \<^verbatim>\<open>part_004\<close> uses the value as it comes and tests only
  \<open>|symbolic| < 1e-10\<close>, which NaN does not satisfy. On \<open>abs(x)\<close> at \<open>x = 0\<close>, whose
  derivative \<open>abs(x) / x\<close> is \<open>0/0\<close> there, \<open>|symbolic| \<ge> 1e-10\<close> is false and yet
  \<^verbatim>\<open>part_004\<close> returns three error fields that are NaN, not \<^verbatim>\<open>null\<close>.
\<close>

theorem approximateDerivative_part004_nan_symbolic:
  "demo_evaluate ''abs(x) / x'' (Fin 0) = Inr NaN
   \<and> \<not> jge (Math_abs NaN) (Fin (1 / 10 ^ 10))
   \<and> approximateDerivative_part004 demo_compile demo_evaluate demo_derivative demo_toString
       demo_evaluate ''abs(x)'' (Fin 0) (Fin (1 / 2)) 2 =
     Inr (Result \<lparr>forward = Fin 1, backward = Fin (- 1), centered = Fin 0,
            forwardError = Some NaN, backwardError = Some NaN, centeredError = Some NaN,
            symbolic = Some NaN\<rparr>)
   \<and> approximateDerivative demo_compile demo_node_evaluate demo_derivative ''abs(x)''
       (Fin 0) (Fin (1 / 2)) 2 =
     Inr (Result \<lparr>forward = Fin 1, backward = Fin (- 1), centered = Fin 0,
            forwardError = None, backwardError = None, centeredError = None,
            symbolic = None\<rparr>)"
  by (simp add: approximateDerivative_part004_def approximateDerivative_part004_try_def
        approximateDerivative_def approximateDerivative_try_def demo_compile_def
        demo_node_evaluate_def demo_evaluate_def demo_derivative_def demo_toString_def
        safeEvaluate_def safeDerivative_def calcError_def calculateError_def round_opt_def
        jsub_def parseFloat_toFixed_def round_half_away_def Let_def)

subsection \<open>Fields that are stored unrounded\<close>

text \<open>
  Claim C7. Every number stored in an \<^verbatim>\<open>IterationResult\<close> or a \<^verbatim>\<open>DerivativeResult\<close> is
  rounded to at most \<open>precision\<close> decimals, while the iterate that goes into the next pass is
  the unrounded one.

  \<^verbatim>\<open>toFixed\<close> does round to \<open>precision\<close> decimals (\<open>parseFloat_toFixed_decimals\<close>), and the
  loops go on from the unrounded iterate. But \<^verbatim>\<open>approximateDerivative\<close> of \<^verbatim>\<open>part_004\<close> stores
  its three error fields without \<^verbatim>\<open>toFixed\<close>: on \<open>x^2\<close> at \<open>x = 1\<close> with \<open>h = 0.125\<close> and
  precision \<open>1\<close> the forward error is stored as \<open>6.25\<close>, where \<^verbatim>\<open>math-utils.ts\<close> stores
  \<open>6.3\<close>. In \<^verbatim>\<open>math-utils.ts\<close> the closing record of a degenerate stop holds the unrounded
  \<open>x\<close> as well.
\<close>

theorem approximateDerivative_part004_unrounded_error:
  "approximateDerivative_part004 demo_compile demo_evaluate demo_derivative demo_toString
       demo_evaluate ''x^2'' (Fin 1) (Fin (1 / 8)) 1 =
     Inr (Result \<lparr>forward = Fin (21 / 10), backward = Fin (19 / 10), centered = Fin 2,
            forwardError = Some (Fin (25 / 4)), backwardError = Some (Fin (25 / 4)),
            centeredError = Some (Fin 0), symbolic = Some (Fin 2)\<rparr>)
   \<and> \<not> decimals_at_most 1 (Fin (25 / 4))
   \<and> approximateDerivative demo_compile demo_node_evaluate demo_derivative ''x^2'' (Fin 1)
       (Fin (1 / 8)) 1 =
     Inr (Result \<lparr>forward = Fin (21 / 10), backward = Fin (19 / 10), centered = Fin 2,
            forwardError = Some (Fin (63 / 10)), backwardError = Some (Fin (63 / 10)),
            centeredError = Some (Fin 0), symbolic = Some (Fin 2)\<rparr>)
   \<and> decimals_at_most 1 (Fin (63 / 10))
   \<and> newtonRaphson (Fin (10 ^ 11 + 1 / 4)) 1 (Fin 0) 1 =
     Inr [\<lparr>iteration = 1, approximation = Fin (10 ^ 11 + 1 / 4), relativeError = None\<rparr>]
   \<and> \<not> decimals_at_most 1 (Fin (10 ^ 11 + 1 / 4))"
  by (simp add: approximateDerivative_part004_def approximateDerivative_part004_try_def
        approximateDerivative_def approximateDerivative_try_def demo_compile_def
        demo_node_evaluate_def demo_evaluate_def demo_derivative_def demo_toString_def
        safeEvaluate_def safeDerivative_def calcError_def calculateError_def round_opt_def
        jsub_def parseFloat_toFixed_def round_half_away_def Let_def newtonRaphson_def
        newtonRaphson_loop.simps fPrime_def)

end
